theory Spec2Isabelle
  imports
    Complex_Main
    "HOL-Library.Product_Lexorder"
    "HOL-Library.List_Lexorder"
    "HOL-Library.Char_ord"
    "HOL-Library.Multiset"
begin

section \<open>JavaScript values and string helpers\<close>

text \<open>
  A JavaScript number is \<open>NaN\<close>, one of the two infinities, or a finite double, which is
  given by its exact value, a rational.  The two zeros are one value: they differ only
  under a division by zero, and the code divides by nothing but a number it has tested
  against 0.  Strings are lists of UTF-8 bytes.

  Comparing two doubles does not round and is defined below.  Adding, subtracting,
  multiplying and dividing them rounds to the nearest double: these four operations
  are the platform's, as \<open>parseFloat\<close>, \<open>Number\<close> and \<open>new Date\<close> are, and the functions
  that use them take them as parameters.
\<close>

datatype jsnum = NaN | NegInf | Num rat | PosInf

record arithmetic =
  num_add :: "jsnum \<Rightarrow> jsnum \<Rightarrow> jsnum"
  num_sub :: "jsnum \<Rightarrow> jsnum \<Rightarrow> jsnum"
  num_mul :: "jsnum \<Rightarrow> jsnum \<Rightarrow> jsnum"
  num_div :: "jsnum \<Rightarrow> jsnum \<Rightarrow> jsnum"

text \<open>The place of a number that is not \<open>NaN\<close> on the extended number line, as a pair
  ordered lexicographically; and the comparisons \<open>x === y\<close>, \<open>x > y\<close>, \<open>x >= y\<close>,
  \<open>x < y\<close>, which are all false as soon as one side is \<open>NaN\<close>.\<close>

definition numOrder :: "jsnum \<Rightarrow> int \<times> rat" where
  "numOrder x = (case x of NegInf \<Rightarrow> (- 1, 0) | Num r \<Rightarrow> (0, r) | PosInf \<Rightarrow> (1, 0) | NaN \<Rightarrow> (0, 0))"

definition num_eq :: "jsnum \<Rightarrow> jsnum \<Rightarrow> bool" where
  "num_eq x y = (x \<noteq> NaN \<and> y \<noteq> NaN \<and> x = y)"

definition num_gt :: "jsnum \<Rightarrow> jsnum \<Rightarrow> bool" where
  "num_gt x y = (x \<noteq> NaN \<and> y \<noteq> NaN \<and> numOrder y < numOrder x)"

definition num_ge :: "jsnum \<Rightarrow> jsnum \<Rightarrow> bool" where
  "num_ge x y = (x \<noteq> NaN \<and> y \<noteq> NaN \<and> numOrder y \<le> numOrder x)"

definition num_lt :: "jsnum \<Rightarrow> jsnum \<Rightarrow> bool" where
  "num_lt x y = num_gt y x"

text \<open>\<open>Math.max(x, y)\<close>: \<open>NaN\<close> as soon as one argument is.\<close>

definition num_max :: "jsnum \<Rightarrow> jsnum \<Rightarrow> jsnum" where
  "num_max x y = (if x = NaN \<or> y = NaN then NaN else if numOrder x < numOrder y then y else x)"

text \<open>
  A value read where the code expects an \<open>'a\<close>: the value itself, one of the built-in
  functions (named by its \<open>name\<close> property), the object \<open>Object.prototype\<close>, or
  \<open>undefined\<close>.  An object literal inherits the properties of \<open>Object.prototype\<close>, so
  \<open>obj[key]\<close> with a computed key finds the key the literal declares, else the property
  inherited under that name, else \<open>undefined\<close>.
\<close>

datatype 'a js = Val 'a | Fun string | Proto | Undefined

definition objectPrototype :: "(string \<times> 'a js) list" where
  "objectPrototype =
     [(''constructor'', Fun ''Object''),
      (''hasOwnProperty'', Fun ''hasOwnProperty''),
      (''isPrototypeOf'', Fun ''isPrototypeOf''),
      (''propertyIsEnumerable'', Fun ''propertyIsEnumerable''),
      (''toLocaleString'', Fun ''toLocaleString''),
      (''toString'', Fun ''toString''),
      (''valueOf'', Fun ''valueOf''),
      (''__defineGetter__'', Fun ''__defineGetter__''),
      (''__defineSetter__'', Fun ''__defineSetter__''),
      (''__lookupGetter__'', Fun ''__lookupGetter__''),
      (''__lookupSetter__'', Fun ''__lookupSetter__''),
      (''__proto__'', Proto)]"

definition getProp :: "(string \<times> 'a) list \<Rightarrow> string \<Rightarrow> 'a js" where
  "getProp obj key =
     (case map_of obj key of
        Some v \<Rightarrow> Val v
      | None \<Rightarrow> (case map_of objectPrototype key of Some v \<Rightarrow> v | None \<Rightarrow> Undefined))"

text \<open>\<open>x ?? d\<close>\<close>

definition nullish :: "'a js \<Rightarrow> 'a js \<Rightarrow> 'a js" where
  "nullish x d = (case x of Undefined \<Rightarrow> d | _ \<Rightarrow> x)"

text \<open>Whether a value that should be a number is truthy; what \<open>ToNumber\<close> makes of it;
  and the string that \<open>ToPrimitive\<close> makes of a function or of \<open>Object.prototype\<close>.  The
  text of a built-in function starts with \<open>function\<close>, a space and its name in every
  engine; what follows the name differs between engines and decides no comparison
  below, since none of the names is the beginning of another.\<close>

definition truthy :: "jsnum js \<Rightarrow> bool" where
  "truthy x = (case x of Val n \<Rightarrow> n \<noteq> NaN \<and> n \<noteq> Num 0 | Undefined \<Rightarrow> False | _ \<Rightarrow> True)"

definition toNum :: "jsnum js \<Rightarrow> jsnum" where
  "toNum x = (case x of Val n \<Rightarrow> n | _ \<Rightarrow> NaN)"

definition primitiveText :: "'a js \<Rightarrow> string option" where
  "primitiveText x =
     (case x of Fun f \<Rightarrow> Some (''function '' @ f @ ''() { [native code] }'')
              | Proto \<Rightarrow> Some ''[object Object]''
              | _ \<Rightarrow> None)"

text \<open>\<open>x === y\<close> and \<open>x > y\<close> on two such values.  Two functions or objects are equal
  when they are the same object.  For \<open>>\<close> both sides are made primitive: two strings
  are compared as strings, by code units; anything else is compared as numbers, and the
  number of a function's text, of \<open>[object Object]\<close> and of \<open>undefined\<close> is \<open>NaN\<close>.\<close>

definition strictEq :: "jsnum js \<Rightarrow> jsnum js \<Rightarrow> bool" where
  "strictEq x y =
     (case (x, y) of
        (Val a, Val b) \<Rightarrow> num_eq a b
      | (Fun f, Fun g) \<Rightarrow> f = g
      | (Proto, Proto) \<Rightarrow> True
      | (Undefined, Undefined) \<Rightarrow> True
      | _ \<Rightarrow> False)"

definition js_gt :: "jsnum js \<Rightarrow> jsnum js \<Rightarrow> bool" where
  "js_gt x y =
     (case (primitiveText x, primitiveText y) of
        (Some s, Some t) \<Rightarrow> t < s
      | _ \<Rightarrow> num_gt (toNum x) (toNum y))"

text \<open>A \<open>Date\<close> object as far as the dashboards read it: local calendar year, local
  month index 0..11, and the time value in milliseconds.  An invalid date (time value
  \<open>NaN\<close>) is the \<open>None\<close> of the \<open>new Date\<close> parameter.\<close>

record jsdate =
  getFullYear :: int
  getMonth :: nat
  getTime :: int

text \<open>\<open>s.trim()\<close> strips the white space and the line terminators of ECMAScript from
  both ends; they are listed here in their UTF-8 encoding.\<close>

definition whiteSpace :: "string list" where
  "whiteSpace =
     [[CHR 0x09], [CHR 0x0A], [CHR 0x0B], [CHR 0x0C], [CHR 0x0D], [CHR 0x20],
      [CHR 0xC2, CHR 0xA0], [CHR 0xE1, CHR 0x9A, CHR 0x80],
      [CHR 0xE2, CHR 0x80, CHR 0x80], [CHR 0xE2, CHR 0x80, CHR 0x81],
      [CHR 0xE2, CHR 0x80, CHR 0x82], [CHR 0xE2, CHR 0x80, CHR 0x83],
      [CHR 0xE2, CHR 0x80, CHR 0x84], [CHR 0xE2, CHR 0x80, CHR 0x85],
      [CHR 0xE2, CHR 0x80, CHR 0x86], [CHR 0xE2, CHR 0x80, CHR 0x87],
      [CHR 0xE2, CHR 0x80, CHR 0x88], [CHR 0xE2, CHR 0x80, CHR 0x89],
      [CHR 0xE2, CHR 0x80, CHR 0x8A], [CHR 0xE2, CHR 0x80, CHR 0xA8],
      [CHR 0xE2, CHR 0x80, CHR 0xA9], [CHR 0xE2, CHR 0x80, CHR 0xAF],
      [CHR 0xE2, CHR 0x81, CHR 0x9F], [CHR 0xE3, CHR 0x80, CHR 0x80],
      [CHR 0xEF, CHR 0xBB, CHR 0xBF]]"

text \<open>The length of the white space character a string starts with, 0 when it starts
  with none.\<close>

definition leadingSpace :: "string list \<Rightarrow> string \<Rightarrow> nat" where
  "leadingSpace ws s =
     (case find (\<lambda>w. w \<noteq> [] \<and> take (length w) s = w) ws of None \<Rightarrow> 0 | Some w \<Rightarrow> length w)"

function stripLeading :: "string list \<Rightarrow> string \<Rightarrow> string" where
  "stripLeading ws s =
     (if leadingSpace ws s = 0 \<or> s = [] then s else stripLeading ws (drop (leadingSpace ws s) s))"
  by pat_completeness auto
termination
  by (relation "measure (\<lambda>(ws, s). length s)") auto

declare stripLeading.simps [simp del]

definition trim :: "string \<Rightarrow> string" where
  "trim s = rev (stripLeading (map rev whiteSpace) (rev (stripLeading whiteSpace s)))"

text \<open>\<open>toLowerCase\<close> and \<open>toUpperCase\<close> on the letters A to Z.  The code compares their
  results with ASCII keys (\<open>won\<close>, \<open>lost\<close>, \<open>no tender\<close>, the keys of the stage tables
  and the names these tables inherit, \<open>A\<close>, \<open>B\<close>); no string with a character outside
  ASCII is mapped onto one of these keys, so these comparisons come out as in
  JavaScript.  The salesperson filter alone compares two lowered strings with each
  other, which is exact here for names in ASCII.\<close>

definition lowerChar :: "char \<Rightarrow> char" where
  "lowerChar c =
     (case map_of (zip ''ABCDEFGHIJKLMNOPQRSTUVWXYZ'' ''abcdefghijklmnopqrstuvwxyz'') c of
        Some l \<Rightarrow> l | None \<Rightarrow> c)"

definition toLowerCase :: "string \<Rightarrow> string" where
  "toLowerCase s = map lowerChar s"

definition toUpperCase :: "string \<Rightarrow> string" where
  "toUpperCase s =
     map (\<lambda>c. case map_of (zip ''abcdefghijklmnopqrstuvwxyz'' ''ABCDEFGHIJKLMNOPQRSTUVWXYZ'') c of
                 Some u \<Rightarrow> u | None \<Rightarrow> c) s"

definition startsWith :: "string \<Rightarrow> string \<Rightarrow> bool" where
  "startsWith s p = (take (length p) s = p)"

text \<open>\<open>x || ""\<close> on a nullable string.\<close>

definition orEmpty :: "string option \<Rightarrow> string" where
  "orEmpty x = (case x of None \<Rightarrow> [] | Some s \<Rightarrow> s)"

definition digitChar :: "nat \<Rightarrow> char" where
  "digitChar d =
     (if d = 0 then CHR ''0'' else if d = 1 then CHR ''1'' else if d = 2 then CHR ''2''
      else if d = 3 then CHR ''3'' else if d = 4 then CHR ''4'' else if d = 5 then CHR ''5''
      else if d = 6 then CHR ''6'' else if d = 7 then CHR ''7'' else if d = 8 then CHR ''8''
      else CHR ''9'')"

text \<open>Decimal rendering of a whole number, as a template literal renders it.\<close>

fun string_of_nat :: "nat \<Rightarrow> string" where
  "string_of_nat n =
     (if n < 10 then [digitChar n] else string_of_nat (n div 10) @ [digitChar (n mod 10)])"

declare string_of_nat.simps [simp del]

definition string_of_int :: "int \<Rightarrow> string" where
  "string_of_int i = (if i < 0 then CHR ''-'' # string_of_nat (nat (- i)) else string_of_nat (nat i))"

text \<open>\<open>s.padStart(2, "0")\<close>.\<close>

definition padStart2 :: "string \<Rightarrow> string" where
  "padStart2 s = replicate (2 - length s) CHR ''0'' @ s"

text \<open>A \<open>Map\<close> keeps its keys in the order of their first insertion, and
  \<open>Array.from(map.values())\<close> reads them in that order: an association list whose
  \<open>set\<close> overwrites in place and appends a new key at the end.\<close>

fun map_set :: "'k \<Rightarrow> 'v \<Rightarrow> ('k \<times> 'v) list \<Rightarrow> ('k \<times> 'v) list" where
  "map_set k v [] = [(k, v)]"
| "map_set k v ((k', v') # m) = (if k' = k then (k, v) # m else (k', v') # map_set k v m)"

definition map_values :: "('k \<times> 'v) list \<Rightarrow> 'v list" where
  "map_values m = map snd m"

section \<open>Dashboard: deals, weights and the best deal per AP number\<close>

text \<open>The \<open>Deal\<close> type of \<open>app/dashboard/page.tsx\<close>; the forecast dashboard declares the
  same type without \<open>site_name\<close> and the two works fields.  \<open>tender_value\<close> is
  \<open>number | string | null\<close>; \<open>ap_number\<close>, the number of the project, is a whole
  number or \<open>null\<close>.\<close>

datatype tender_val = TNum jsnum | TStr string

record deal =
  ident :: string
  ap_number :: "int option"
  company_id :: "string option"
  site_name :: "string option"
  enquiry_date :: "string option"
  tender_return_date :: "string option"
  stage :: "string option"
  probability :: "string option"
  tender_value :: "tender_val option"
  salesperson :: "string option"
  estimated_start_date :: "string option"
  works_category :: "string option"
  works_subcategory :: "string option"

definition toNumber :: "(string \<Rightarrow> jsnum) \<Rightarrow> tender_val option \<Rightarrow> jsnum" where
  "toNumber Number value =
     (case value of
        None \<Rightarrow> Num 0
      | Some v \<Rightarrow>
          (let n = (case v of TStr s \<Rightarrow> Number s | TNum x \<Rightarrow> x)
           in if n = NaN then Num 0 else n))"

text \<open>The two lookup tables.  The literal \<open>0.1\<close> denotes the double nearest to one
  tenth; the other weights and the ranks are doubles as they are written.\<close>

definition STAGE_PRIORITY :: "(string \<times> jsnum) list" where
  "STAGE_PRIORITY =
     [(''lost'', Num 0), (''no tender'', Num 0), (''received'', Num 1), (''qualified'', Num 2),
      (''in review'', Num 3), (''quote submitted'', Num 4), (''won'', Num 5)]"

definition oneTenth :: rat where
  "oneTenth = 3602879701896397 / 36028797018963968"

definition PROB_WEIGHTS :: "(string \<times> jsnum) list" where
  "PROB_WEIGHTS =
     [(''A'', Num (3 / 4)), (''B'', Num (1 / 2)), (''C'', Num (1 / 4)), (''D'', Num oneTenth)]"

text \<open>The declared result type is \<open>number\<close>, but \<open>PROB_WEIGHTS[deal.probability]\<close> is
  returned whenever it is truthy, whatever it is.\<close>

definition getDealWeight :: "deal \<Rightarrow> jsnum js" where
  "getDealWeight d =
     (let stg = toLowerCase (orEmpty (stage d)) in
      if stg = ''won'' then Val (Num 1)
      else if stg = ''lost'' \<or> stg = ''no tender'' then Val (Num 0)
      else (case probability d of
              None \<Rightarrow> Val (Num 0)
            | Some p \<Rightarrow>
                if p \<noteq> [] \<and> truthy (getProp PROB_WEIGHTS p) then getProp PROB_WEIGHTS p
                else Val (Num 0)))"

text \<open>\<open>STAGE_PRIORITY[(d.stage || "").toLowerCase()] ?? 0\<close>\<close>

definition stagePriority :: "string option \<Rightarrow> jsnum js" where
  "stagePriority stg =
     nullish (getProp STAGE_PRIORITY (toLowerCase (orEmpty stg))) (Val (Num 0))"

text \<open>\<open>d.enquiry_date ? new Date(d.enquiry_date).getTime() : 0\<close>\<close>

definition enquiryTime :: "(string \<Rightarrow> jsdate option) \<Rightarrow> deal \<Rightarrow> jsnum" where
  "enquiryTime newDate d =
     (case enquiry_date d of
        None \<Rightarrow> Num 0
      | Some s \<Rightarrow>
          if s = [] then Num 0
          else (case newDate s of None \<Rightarrow> NaN | Some dt \<Rightarrow> Num (of_int (getTime dt))))"

definition chooseBestDealForAp ::
  "(string \<Rightarrow> jsnum) \<Rightarrow> (string \<Rightarrow> jsdate option) \<Rightarrow> deal \<Rightarrow> deal \<Rightarrow> deal" where
  "chooseBestDealForAp Number newDate a b =
     (let stageA = stagePriority (stage a); stageB = stagePriority (stage b) in
      if \<not> strictEq stageA stageB then (if js_gt stageA stageB then a else b)
      else
        let weightA = getDealWeight a; weightB = getDealWeight b in
        if \<not> strictEq weightA weightB then (if js_gt weightA weightB then a else b)
        else
          let valA = toNumber Number (tender_value a); valB = toNumber Number (tender_value b) in
          if \<not> num_eq valA valB then (if num_gt valA valB then a else b)
          else
            let dA = enquiryTime newDate a; dB = enquiryTime newDate b in
            if num_ge dA dB then a else b)"

text \<open>The forecast dashboard (\<open>src/unnamed/part_001\<close>) has the same comparison under
  another name.\<close>

definition chooseBetterDealForForecast ::
  "(string \<Rightarrow> jsnum) \<Rightarrow> (string \<Rightarrow> jsdate option) \<Rightarrow> deal \<Rightarrow> deal \<Rightarrow> deal" where
  "chooseBetterDealForForecast Number newDate a b =
     (let stageA = stagePriority (stage a); stageB = stagePriority (stage b) in
      if \<not> strictEq stageA stageB then (if js_gt stageA stageB then a else b)
      else
        let weightA = getDealWeight a; weightB = getDealWeight b in
        if \<not> strictEq weightA weightB then (if js_gt weightA weightB then a else b)
        else
          let valA = toNumber Number (tender_value a); valB = toNumber Number (tender_value b) in
          if \<not> num_eq valA valB then (if num_gt valA valB then a else b)
          else
            let dA = enquiryTime newDate a; dB = enquiryTime newDate b in
            if num_ge dA dB then a else b)"

definition groupKey :: "deal \<Rightarrow> string" where
  "groupKey d =
     (case ap_number d of
        Some n \<Rightarrow> ''AP-'' @ string_of_int n
      | None \<Rightarrow> ''ID-'' @ ident d)"

definition collapseStep ::
  "(deal \<Rightarrow> deal \<Rightarrow> deal) \<Rightarrow> deal \<Rightarrow> (string \<times> deal) list \<Rightarrow> (string \<times> deal) list" where
  "collapseStep pick d m =
     (let key = groupKey d in
      case map_of m key of
        None \<Rightarrow> map_set key d m
      | Some existing \<Rightarrow> map_set key (pick existing d) m)"

definition collapseDealsByAp ::
  "(string \<Rightarrow> jsnum) \<Rightarrow> (string \<Rightarrow> jsdate option) \<Rightarrow> deal list \<Rightarrow> deal list" where
  "collapseDealsByAp Number newDate deals =
     map_values (fold (collapseStep (chooseBestDealForAp Number newDate)) deals [])"

definition collapseDealsByAp_forecast ::
  "(string \<Rightarrow> jsnum) \<Rightarrow> (string \<Rightarrow> jsdate option) \<Rightarrow> deal list \<Rightarrow> deal list" where
  "collapseDealsByAp_forecast Number newDate deals =
     map_values (fold (collapseStep (chooseBetterDealForForecast Number newDate)) deals [])"

section \<open>Dashboard: financial years\<close>

text \<open>The financial year runs December to November and is labelled by the calendar
  year it ends in.\<close>

definition getFinancialYearEnd :: "jsdate \<Rightarrow> int" where
  "getFinancialYearEnd date =
     (let y = getFullYear date; m = getMonth date in
      if m = 11 then y + 1 else y)"

definition STAGE_LABELS :: "(string \<times> string) list" where
  "STAGE_LABELS =
     [(''received'', ''Received''), (''qualified'', ''Qualified''), (''in review'', ''In Review''),
      (''quote submitted'', ''Quote Submitted''), (''won'', ''Won''), (''lost'', ''Lost''),
      (''no tender'', ''No Tender'')]"

text \<open>\<open>STAGE_LABELS[key] ?? raw\<close> is a label, the trimmed stage itself, or what the
  table inherits under that name.\<close>

definition normaliseStage :: "string option \<Rightarrow> string js" where
  "normaliseStage stg =
     (case stg of
        None \<Rightarrow> Val ''Unspecified''
      | Some s \<Rightarrow>
          if s = [] then Val ''Unspecified''
          else
            let raw = trim s in
            if raw = [] then Val ''Unspecified''
            else nullish (getProp STAGE_LABELS (toLowerCase raw)) (Val raw))"

text \<open>The three counters of a row go up by one at a time and are whole numbers; the
  two values are sums of doubles.\<close>

record FyTenderRow =
  fyEndYear :: int
  tenders :: nat
  quotesSubmitted :: nat
  wonCount :: nat
  totalTenderValue :: jsnum
  wonTenderValue :: jsnum

text \<open>The parsed enquiry date of a deal, when the loops below do not return early on it.\<close>

definition parsedDate :: "(string \<Rightarrow> jsdate option) \<Rightarrow> string option \<Rightarrow> jsdate option" where
  "parsedDate newDate v =
     (case v of None \<Rightarrow> None | Some s \<Rightarrow> if s = [] then None else newDate s)"

text \<open>One round of the \<open>deals.forEach\<close> of \<open>fyTenderSummary\<close>.\<close>

definition fyStep ::
  "arithmetic \<Rightarrow> (string \<Rightarrow> jsnum) \<Rightarrow> (string \<Rightarrow> jsdate option) \<Rightarrow> deal
     \<Rightarrow> (int \<times> FyTenderRow) list \<Rightarrow> (int \<times> FyTenderRow) list" where
  "fyStep ar Number newDate d m =
     (case parsedDate newDate (enquiry_date d) of
        None \<Rightarrow> m
      | Some dt \<Rightarrow>
          let fyEnd = getFinancialYearEnd dt;
              row0 = (case map_of m fyEnd of
                        Some r \<Rightarrow> r
                      | None \<Rightarrow> \<lparr>fyEndYear = fyEnd, tenders = 0, quotesSubmitted = 0, wonCount = 0,
                                  totalTenderValue = Num 0, wonTenderValue = Num 0\<rparr>);
              row1 = row0\<lparr>tenders := tenders row0 + 1\<rparr>;
              stageName = normaliseStage (stage d);
              val = toNumber Number (tender_value d);
              row2 = (if stageName = Val ''Quote Submitted''
                      then row1\<lparr>quotesSubmitted := quotesSubmitted row1 + 1\<rparr> else row1);
              row3 = (if stageName = Val ''Won''
                      then row2\<lparr>wonCount := wonCount row2 + 1,
                                 wonTenderValue := num_add ar (wonTenderValue row2) val\<rparr>
                      else row2);
              row4 = row3\<lparr>totalTenderValue := num_add ar (totalTenderValue row3) val\<rparr>
          in map_set fyEnd row4 m)"

definition fyTenderSummary ::
  "arithmetic \<Rightarrow> (string \<Rightarrow> jsnum) \<Rightarrow> (string \<Rightarrow> jsdate option) \<Rightarrow> deal list
     \<Rightarrow> FyTenderRow list" where
  "fyTenderSummary ar Number newDate deals =
     sort_key fyEndYear (map_values (fold (fyStep ar Number newDate) deals []))"

section \<open>Dashboard: pipeline by estimated start month\<close>

record PipelineBucket =
  monthKey :: string
  label :: string
  wonValue :: jsnum
  probAValue :: jsnum
  probBValue :: jsnum

definition monthKeyOf :: "jsdate \<Rightarrow> string" where
  "monthKeyOf dt =
     string_of_int (getFullYear dt) @ ''-'' @ padStart2 (string_of_nat (getMonth dt + 1))"

text \<open>One round of the \<open>collapsedDeals.forEach\<close> of \<open>pipelineBuckets\<close>.\<close>

definition pipelineStep ::
  "arithmetic \<Rightarrow> (string \<Rightarrow> jsnum) \<Rightarrow> (string \<Rightarrow> jsdate option) \<Rightarrow> deal
     \<Rightarrow> (string \<times> PipelineBucket) list \<Rightarrow> (string \<times> PipelineBucket) list" where
  "pipelineStep ar Number newDate d m =
     (case parsedDate newDate (estimated_start_date d) of
        None \<Rightarrow> m
      | Some dt \<Rightarrow>
          let stg = toLowerCase (orEmpty (stage d)) in
          if stg = ''lost'' \<or> stg = ''no tender'' then m
          else
            let year = getFullYear dt;
                month = getMonth dt + 1;
                key = monthKeyOf dt;
                lbl = padStart2 (string_of_nat month) @ ''/'' @ string_of_int year;
                existing = (case map_of m key of
                              Some e \<Rightarrow> e
                            | None \<Rightarrow> \<lparr>monthKey = key, label = lbl, wonValue = Num 0,
                                        probAValue = Num 0, probBValue = Num 0\<rparr>);
                val = toNumber Number (tender_value d);
                prob = toUpperCase (orEmpty (probability d));
                updated =
                  (if stg = ''won''
                   then existing\<lparr>wonValue := num_add ar (wonValue existing) val\<rparr>
                   else
                     let e1 = (if prob = ''A''
                               then existing\<lparr>probAValue := num_add ar (probAValue existing) val\<rparr>
                               else existing)
                     in if prob = ''B''
                        then e1\<lparr>probBValue := num_add ar (probBValue e1) val\<rparr> else e1)
            in map_set key updated m)"

text \<open>The array sorted by \<open>monthKey\<close> (\<open>localeCompare\<close> on keys of the shape
  \<open>YYYY-MM\<close> is the order of the strings), and the largest bar.\<close>

definition pipelineBuckets ::
  "arithmetic \<Rightarrow> (string \<Rightarrow> jsnum) \<Rightarrow> (string \<Rightarrow> jsdate option) \<Rightarrow> deal list
     \<Rightarrow> PipelineBucket list" where
  "pipelineBuckets ar Number newDate collapsedDeals =
     sort_key monthKey (map_values (fold (pipelineStep ar Number newDate) collapsedDeals []))"

definition maxPipelineValue :: "PipelineBucket list \<Rightarrow> jsnum" where
  "maxPipelineValue arr =
     fold (\<lambda>b mx. num_max (num_max (num_max mx (wonValue b)) (probAValue b)) (probBValue b))
       arr (Num 0)"

section \<open>Forecast dashboard: buckets by estimated start month\<close>

definition MONTHLY_TARGETS :: "(string \<times> jsnum) list" where
  "MONTHLY_TARGETS =
     [(''2025-01'', Num 500000), (''2025-02'', Num 500000), (''2025-03'', Num 750000),
      (''2025-04'', Num 750000)]"

text \<open>\<open>MONTHLY_TARGETS[key] || 0\<close>\<close>

definition targetOf :: "string \<Rightarrow> jsnum js" where
  "targetOf key =
     (if truthy (getProp MONTHLY_TARGETS key) then getProp MONTHLY_TARGETS key else Val (Num 0))"

text \<open>\<open>s.split("-")\<close>\<close>

fun splitOn :: "char \<Rightarrow> string \<Rightarrow> string list" where
  "splitOn c [] = [[]]"
| "splitOn c (x # xs) =
     (if x = c then [] # splitOn c xs
      else (case splitOn c xs of p # ps \<Rightarrow> (x # p) # ps | [] \<Rightarrow> [[x]]))"

text \<open>A missing second part is \<open>undefined\<close>, and \<open>Number(undefined)\<close> is \<open>NaN\<close>.\<close>

definition monthIndexFromYyyyMm ::
  "arithmetic \<Rightarrow> (string \<Rightarrow> jsnum) \<Rightarrow> string \<Rightarrow> jsnum option" where
  "monthIndexFromYyyyMm ar Number s =
     (if s = [] then None
      else
        let parts = splitOn CHR ''-'' s;
            y = Number (hd parts);
            m = (case tl parts of [] \<Rightarrow> NaN | mStr # _ \<Rightarrow> Number mStr)
        in if y = NaN \<or> y = Num 0 \<or> m = NaN \<or> m = Num 0 then None
           else Some (num_add ar (num_mul ar y (Num 12)) (num_sub ar m (Num 1))))"

text \<open>The month index of a date is a whole number far below \<open>2^53\<close>, where the
  arithmetic of doubles is exact.\<close>

definition isDateInMonthRange ::
  "arithmetic \<Rightarrow> (string \<Rightarrow> jsnum) \<Rightarrow> jsdate \<Rightarrow> string \<Rightarrow> string \<Rightarrow> bool" where
  "isDateInMonthRange ar Number dt fromMonth toMonth =
     (if fromMonth = [] \<and> toMonth = [] then True
      else
        let idx = Num (of_int (getFullYear dt * 12 + int (getMonth dt))) in
        if fromMonth \<noteq> [] \<and>
           (case monthIndexFromYyyyMm ar Number fromMonth of
              Some fromIdx \<Rightarrow> num_lt idx fromIdx | None \<Rightarrow> False)
        then False
        else if toMonth \<noteq> [] \<and>
           (case monthIndexFromYyyyMm ar Number toMonth of
              Some toIdx \<Rightarrow> num_gt idx toIdx | None \<Rightarrow> False)
        then False
        else True)"

text \<open>The four entries of a month; \<open>target\<close> is what \<open>MONTHLY_TARGETS[monthKey] || 0\<close>
  gives.\<close>

record ForecastSums =
  total_sum :: jsnum
  expected :: jsnum
  won :: jsnum
  target :: "jsnum js"

text \<open>The filters of the forecast section: today at local midnight (a time value), the
  month range and the check box.\<close>

record ForecastFilters =
  today :: int
  forecastFromMonth :: string
  forecastToMonth :: string
  excludeStartedWon :: bool

text \<open>One round of the \<open>collapsed.forEach\<close> of \<open>forecastBuckets\<close>.\<close>

definition forecastStep ::
  "arithmetic \<Rightarrow> (string \<Rightarrow> jsnum) \<Rightarrow> (string \<Rightarrow> jsdate option) \<Rightarrow> ForecastFilters \<Rightarrow> deal
     \<Rightarrow> (string \<times> ForecastSums) list \<Rightarrow> (string \<times> ForecastSums) list" where
  "forecastStep ar Number newDate flt d m =
     (case parsedDate newDate (estimated_start_date d) of
        None \<Rightarrow> m
      | Some dt \<Rightarrow>
          if \<not> isDateInMonthRange ar Number dt (forecastFromMonth flt) (forecastToMonth flt) then m
          else
            let stg = toLowerCase (orEmpty (stage d)) in
            if stg = ''lost'' \<or> stg = ''no tender'' then m
            else if stg = ''won'' \<and> excludeStartedWon flt \<and> getTime dt < today flt then m
            else
              let key = monthKeyOf dt;
                  current = (case map_of m key of
                               Some c \<Rightarrow> c
                             | None \<Rightarrow> \<lparr>total_sum = Num 0, expected = Num 0, won = Num 0,
                                         target = targetOf key\<rparr>);
                  val = toNumber Number (tender_value d);
                  weight = getDealWeight d;
                  c1 = current\<lparr>total_sum := num_add ar (total_sum current) val,
                               expected := num_add ar (expected current)
                                             (num_mul ar val (toNum weight))\<rparr>;
                  c2 = (if stg = ''won'' then c1\<lparr>won := num_add ar (won c1) val\<rparr> else c1);
                  c3 = c2\<lparr>target := targetOf key\<rparr>
              in map_set key c3 m)"

text \<open>The loop over the collapsed deals, and the whole memo: the salesperson filter, the
  collapse, the loop, and the entries sorted by month key.\<close>

definition forecastLoop ::
  "arithmetic \<Rightarrow> (string \<Rightarrow> jsnum) \<Rightarrow> (string \<Rightarrow> jsdate option) \<Rightarrow> ForecastFilters \<Rightarrow> deal list
     \<Rightarrow> (string \<times> ForecastSums) list" where
  "forecastLoop ar Number newDate flt collapsed =
     fold (forecastStep ar Number newDate flt) collapsed []"

definition forecastBuckets ::
  "arithmetic \<Rightarrow> (string \<Rightarrow> jsnum) \<Rightarrow> (string \<Rightarrow> jsdate option) \<Rightarrow> ForecastFilters \<Rightarrow> string
     \<Rightarrow> deal list \<Rightarrow> (string \<times> ForecastSums) list" where
  "forecastBuckets ar Number newDate flt salespersonFilter deals =
     (if deals = [] then []
      else
        let base = filter (\<lambda>d. salespersonFilter = [] \<or>
                     toLowerCase (orEmpty (salesperson d)) = toLowerCase salespersonFilter) deals;
            collapsed = collapseDealsByAp_forecast Number newDate base
        in sort_key fst (forecastLoop ar Number newDate flt collapsed))"

section \<open>Deal detail page: state, store and the field update helper\<close>

text \<open>The \<open>Deal\<close> type of \<open>app/deals/detail/page.tsx\<close>, with the fields the stage
  handlers read or write; the contact, site, notes and works fields are carried along
  untouched and are left out.  A numeric column is a number or \<open>null\<close>.\<close>

record Lead =
  lead_id :: string
  lead_stage :: "string option"
  lead_probability :: "string option"
  lead_tender_value :: "jsnum option"
  lead_tender_cost :: "jsnum option"
  lead_tender_margin :: "jsnum option"
  lead_tender_margin_percent :: "jsnum option"
  lead_tender_return_date :: "string option"
  lead_estimated_start_date :: "string option"

text \<open>A row of \<open>deal_actions\<close>; \<open>id\<close> and \<open>created_at\<close> are filled in by the store.\<close>

record DealAction =
  deal_id :: string
  action_type :: "string option"
  notes_txt :: "string option"
  file_url :: "string option"

record TenderDraft =
  draft_tender_value :: string
  draft_tender_cost :: string
  draft_tender_margin :: string
  draft_tender_margin_percent :: string

text \<open>The component state (\<open>lead\<close>, \<open>error\<close>, \<open>actions\<close>, the gate modal, the tender
  draft) together with the row of the \<open>deals\<close> table behind it (\<open>stored\<close>).  The
  \<open>savingField\<close> indicator is set and cleared again by every update and is left out.\<close>

record page =
  lead :: "Lead option"
  error :: "string option"
  actions :: "DealAction list"
  gateModalOpen :: bool
  pendingStage :: "string option"
  gateAnswers :: "(string \<times> string) list"
  tenderDraft :: TenderDraft
  stored :: Lead

text \<open>The two fields the stage handlers pass to \<open>updateLeadField\<close>, with the value.\<close>

datatype field_val = StageVal "string option" | ProbabilityVal "string option"

text \<open>What the handlers send to the store.  Whether the store accepts a request is a
  parameter of every handler (\<open>srv\<close>): the store is not code of the repository.\<close>

datatype request =
    Update field_val
  | UpdateTender jsnum jsnum jsnum jsnum
  | Insert DealAction

definition fieldName :: "field_val \<Rightarrow> string" where
  "fieldName fv = (case fv of StageVal _ \<Rightarrow> ''stage'' | ProbabilityVal _ \<Rightarrow> ''probability'')"

definition setField :: "field_val \<Rightarrow> Lead \<Rightarrow> Lead" where
  "setField fv l =
     (case fv of StageVal v \<Rightarrow> l\<lparr>lead_stage := v\<rparr> | ProbabilityVal v \<Rightarrow> l\<lparr>lead_probability := v\<rparr>)"

text \<open>\<open>(lead as any)[field]\<close>\<close>

definition previousValue :: "Lead \<Rightarrow> field_val \<Rightarrow> field_val" where
  "previousValue l fv =
     (case fv of StageVal _ \<Rightarrow> StageVal (lead_stage l)
               | ProbabilityVal _ \<Rightarrow> ProbabilityVal (lead_probability l))"

definition showValue :: "string option \<Rightarrow> string" where
  "showValue v = (case v of None \<Rightarrow> ''null'' | Some s \<Rightarrow> s)"

text \<open>
  \<open>updateLeadField\<close> is an async function.  Up to its \<open>await\<close> it runs at once: it
  clears the error and overwrites the local lead with the lead of the render it was
  created in (\<open>captured\<close>) plus the new field.  The rest runs when the store answers.  A
  handler that starts two updates with \<open>void\<close> runs both first halves before either
  second half; the answers are taken in the order of the requests.
\<close>

definition updateLeadField_begin :: "Lead \<Rightarrow> field_val \<Rightarrow> page \<Rightarrow> page" where
  "updateLeadField_begin captured fv st = st\<lparr>error := None, lead := Some (setField fv captured)\<rparr>"

definition updateLeadField_finish :: "(request \<Rightarrow> bool) \<Rightarrow> Lead \<Rightarrow> field_val \<Rightarrow> page \<Rightarrow> page" where
  "updateLeadField_finish srv captured fv st =
     (if \<not> srv (Update fv) then
        st\<lparr>error := Some (''Could not update '' @ fieldName fv @ ''.''),
           lead := map_option (setField (previousValue captured fv)) (lead st)\<rparr>
      else
        let st1 = st\<lparr>stored := setField fv (stored st)\<rparr> in
        case fv of
          StageVal v \<Rightarrow>
            if lead_stage captured \<noteq> v then
              let a = \<lparr>deal_id = lead_id captured,
                       action_type = Some ''Stage changed'',
                       notes_txt = Some (''Stage changed from '' @
                                (case lead_stage captured of
                                   None \<Rightarrow> ''none''
                                 | Some p \<Rightarrow> if p = [] then ''none'' else p) @
                                '' to '' @ showValue v),
                       file_url = None\<rparr>
              in if srv (Insert a) then st1\<lparr>actions := a # actions st1\<rparr> else st1
            else st1
        | ProbabilityVal _ \<Rightarrow> st1)"

text \<open>\<open>await updateLeadField(field, value)\<close>\<close>

definition updateLeadField :: "(request \<Rightarrow> bool) \<Rightarrow> Lead \<Rightarrow> field_val \<Rightarrow> page \<Rightarrow> page" where
  "updateLeadField srv captured fv st =
     updateLeadField_finish srv captured fv (updateLeadField_begin captured fv st)"

section \<open>Deal detail page: the stage click\<close>

definition STAGES :: "string list" where
  "STAGES = [''Received'', ''Qualified'', ''In Review'', ''Quote Submitted'', ''Won'', ''Lost'',
             ''No Tender'']"

definition currentStage :: "Lead \<Rightarrow> string" where
  "currentStage l =
     (case lead_stage l of
        None \<Rightarrow> ''Received''
      | Some s \<Rightarrow> if s \<noteq> [] \<and> s \<in> set STAGES then s else ''Received'')"

text \<open>\<open>x.toFixed(f)\<close>.  For a finite number, below \<open>10^21\<close> in size: the multiple of
  \<open>10^-f\<close> nearest to the exact value of the double, the larger one on a tie, the sign
  in front.\<close>

definition toFixed :: "nat \<Rightarrow> jsnum \<Rightarrow> string" where
  "toFixed f x =
     (case x of
        NaN \<Rightarrow> ''NaN''
      | PosInf \<Rightarrow> ''Infinity''
      | NegInf \<Rightarrow> ''-Infinity''
      | Num r \<Rightarrow>
          let n = nat \<lfloor>\<bar>r\<bar> * 10 ^ f + 1 / 2\<rfloor>;
              ip = string_of_nat (n div 10 ^ f);
              fp = string_of_nat (n mod 10 ^ f);
              body = (if f = 0 then ip else ip @ ''.'' @ replicate (f - length fp) CHR ''0'' @ fp)
          in if r < 0 then CHR ''-'' # body else body)"

definition formatNumber :: "jsnum option \<Rightarrow> nat \<Rightarrow> string" where
  "formatNumber value decimals =
     (case value of
        None \<Rightarrow> []
      | Some v \<Rightarrow> if v = NaN then [] else toFixed decimals v)"

definition errNoTender :: string where
  "errNoTender = ''This lead has been marked 'No Tender' and cannot move to another stage.''"

definition errReceived :: string where
  "errReceived = ''Moving back to 'Received' is disabled. Use notes or actions to record any changes.''"

definition errTender :: string where
  "errTender = ''Tender summary must be completed before marking this deal as Won or Lost.''"

definition qualifiedInitialAnswers :: "Lead \<Rightarrow> (string \<times> string) list" where
  "qualifiedInitialAnswers l =
     [(''scope_works'', []), (''est_start_month'', []),
      (''qualified_tender_return_date'', orEmpty (lead_tender_return_date l)),
      (''scheme_size'', []), (''multi_basis'', []), (''multi_plot_numbers'', []),
      (''multi_extra_over_offered'', []), (''multi_extra_over_client_agreed'', [])]"

definition inReviewInitialAnswers :: "(string \<times> string) list" where
  "inReviewInitialAnswers =
     [(''arch_housetype'', []), (''arch_siteplans'', []), (''civils_levels'', []),
      (''civils_drainage'', []), (''si_depth'', []), (''drawings_in_sharepoint'', []),
      (''sharepoint_link'', [])]"

definition quoteInitialAnswers :: "Lead \<Rightarrow> TenderDraft \<Rightarrow> (string \<times> string) list" where
  "quoteInitialAnswers l td =
     [(''quote_reference'', []), (''quote_date'', []), (''quote_submission_link'', []),
      (''quote_drawings_link'', []),
      (''tender_value'',
         (if lead_tender_value l \<noteq> None then formatNumber (lead_tender_value l) 2
          else draft_tender_value td)),
      (''tender_cost'',
         (if lead_tender_cost l \<noteq> None then formatNumber (lead_tender_cost l) 2
          else draft_tender_cost td)),
      (''tender_margin'',
         (if lead_tender_margin l \<noteq> None then formatNumber (lead_tender_margin l) 2
          else draft_tender_margin td)),
      (''tender_margin_percent'',
         (if lead_tender_margin_percent l \<noteq> None then formatNumber (lead_tender_margin_percent l) 1
          else draft_tender_margin_percent td)),
      (''key_material_rates'', []), (''overall_duration'', []), (''phases_priced'', [])]"

definition openGate :: "string \<Rightarrow> (string \<times> string) list \<Rightarrow> page \<Rightarrow> page" where
  "openGate stg initialAnswers st =
     st\<lparr>pendingStage := Some stg, gateAnswers := initialAnswers, gateModalOpen := True\<rparr>"

text \<open>\<open>handleStageClick(stage)\<close>; \<open>ok\<close> is the answer to \<open>window.confirm\<close>.\<close>

definition handleStageClick :: "(request \<Rightarrow> bool) \<Rightarrow> bool \<Rightarrow> string \<Rightarrow> page \<Rightarrow> page" where
  "handleStageClick srv ok stg st =
     (case lead st of
        None \<Rightarrow> st
      | Some l \<Rightarrow>
          if stg = currentStage l then st
          else if currentStage l = ''No Tender'' \<and> stg \<noteq> ''No Tender'' then
            st\<lparr>error := Some errNoTender\<rparr>
          else if stg = ''No Tender'' then
            (if \<not> ok then st
             else
               updateLeadField_finish srv l (StageVal (Some ''No Tender''))
                 (updateLeadField_finish srv l (ProbabilityVal None)
                   (updateLeadField_begin l (StageVal (Some ''No Tender''))
                     (updateLeadField_begin l (ProbabilityVal None) st))))
          else if stg = ''Received'' \<and> currentStage l \<noteq> ''Received'' then
            st\<lparr>error := Some errReceived\<rparr>
          else if (stg = ''Won'' \<or> stg = ''Lost'') \<and>
                  (lead_tender_value l = None \<or> lead_tender_cost l = None \<or>
                   lead_tender_margin l = None \<or> lead_tender_margin_percent l = None) then
            st\<lparr>error := Some errTender\<rparr>
          else if stg = ''Won'' \<or> stg = ''Lost'' then
            updateLeadField_finish srv l (StageVal (Some stg))
              (updateLeadField_finish srv l (ProbabilityVal None)
                (updateLeadField_begin l (StageVal (Some stg))
                  (updateLeadField_begin l (ProbabilityVal None) st)))
          else if stg = ''Qualified'' then openGate stg (qualifiedInitialAnswers l) st
          else if stg = ''In Review'' then openGate stg inReviewInitialAnswers st
          else if stg = ''Quote Submitted'' then
            openGate stg (quoteInitialAnswers l (tenderDraft st)) st
          else updateLeadField srv l (StageVal (Some stg)) st)"

section \<open>Deal detail page: confirming the Quote Submitted gate\<close>

text \<open>\<open>(gateAnswers[key] || "").trim()\<close>, which the code calls with the names of the
  form's fields only.\<close>

definition ans :: "(string \<times> string) list \<Rightarrow> string \<Rightarrow> string" where
  "ans ga key = trim (case map_of ga key of Some v \<Rightarrow> v | None \<Rightarrow> [])"

definition areAllQuoteSubmittedGateQuestionsComplete :: "(string \<times> string) list \<Rightarrow> bool" where
  "areAllQuoteSubmittedGateQuestionsComplete ga =
     (ans ga ''quote_reference'' \<noteq> [] \<and> ans ga ''quote_date'' \<noteq> [] \<and>
      ans ga ''quote_submission_link'' \<noteq> [] \<and> ans ga ''quote_drawings_link'' \<noteq> [] \<and>
      ans ga ''tender_value'' \<noteq> [] \<and> ans ga ''tender_cost'' \<noteq> [] \<and>
      ans ga ''tender_margin'' \<noteq> [] \<and> ans ga ''tender_margin_percent'' \<noteq> [] \<and>
      ans ga ''key_material_rates'' \<noteq> [] \<and> ans ga ''overall_duration'' \<noteq> [] \<and>
      ans ga ''phases_priced'' \<noteq> [])"

definition getQuoteSubmissionCount :: "DealAction list \<Rightarrow> nat" where
  "getQuoteSubmissionCount acts =
     length (filter (\<lambda>a. case action_type a of
                            None \<Rightarrow> False
                          | Some t \<Rightarrow> startsWith t ''Stage gate: Quote Submitted'') acts)"

text \<open>\<open>lines.join("\n")\<close>\<close>

fun joinLines :: "string list \<Rightarrow> string" where
  "joinLines [] = []"
| "joinLines [l] = l"
| "joinLines (l # ls) = l @ [CHR 0x0A] @ joinLines ls"

text \<open>The arrow and the pound sign of the summary, as UTF-8 bytes.\<close>

definition arrow :: string where
  "arrow = [CHR 0xE2, CHR 0x86, CHR 0x92]"

definition pound :: string where
  "pound = [CHR 0xC2, CHR 0xA3]"

definition quoteSummaryLines ::
  "(string \<times> string) list \<Rightarrow> nat \<Rightarrow> jsnum \<Rightarrow> jsnum \<Rightarrow> jsnum \<Rightarrow> jsnum \<Rightarrow> string list" where
  "quoteSummaryLines ga quoteVersion tenderValue tenderCost tenderMargin tenderMarginPercent =
     [''Stage Gate: In Review '' @ arrow @ '' Quote Submitted (v'' @ string_of_nat quoteVersion @ '')'',
      [],
      ''Quote Reference: '' @ ans ga ''quote_reference'',
      ''Date of Quote: '' @ ans ga ''quote_date'',
      ''Quotation Submission Link: '' @ ans ga ''quote_submission_link'',
      ''Quotation Drawings Link: '' @ ans ga ''quote_drawings_link'',
      [],
      ''Tender Value '' @ pound @ '': '' @ toFixed 2 tenderValue,
      ''Tender Cost '' @ pound @ '': '' @ toFixed 2 tenderCost,
      ''Tender Margin '' @ pound @ '': '' @ toFixed 2 tenderMargin,
      ''Tender Margin %: '' @ toFixed 1 tenderMarginPercent @ ''%'',
      [],
      ''Procurement key material rates received: '' @ ans ga ''key_material_rates'',
      [],
      ''Overall Duration of Works: '' @ ans ga ''overall_duration'',
      ''Phases Priced: '' @ ans ga ''phases_priced'']"

definition errNumeric :: string where
  "errNumeric = ''Please enter valid numeric values for tender value and cost.''"

definition errTenderUpdate :: string where
  "errTenderUpdate = ''Could not update tender summary on deal.''"

definition setTender ::
  "jsnum option \<Rightarrow> jsnum option \<Rightarrow> jsnum option \<Rightarrow> jsnum option \<Rightarrow> Lead \<Rightarrow> Lead" where
  "setTender v c mg mp l =
     l\<lparr>lead_tender_value := v, lead_tender_cost := c,
       lead_tender_margin := mg, lead_tender_margin_percent := mp\<rparr>"

text \<open>The body of a request is JSON, which writes a number that is not finite as
  \<open>null\<close>: that is what reaches the row in the store.\<close>

definition json :: "jsnum \<Rightarrow> jsnum option" where
  "json x = (case x of Num r \<Rightarrow> Some (Num r) | _ \<Rightarrow> None)"

text \<open>The handler once the three guards and the check of the two numbers have passed:
  the gate entry, the tender fields, the stage, the modal.\<close>

definition submitQuote ::
  "arithmetic \<Rightarrow> (request \<Rightarrow> bool) \<Rightarrow> Lead \<Rightarrow> jsnum \<Rightarrow> jsnum \<Rightarrow> page \<Rightarrow> page" where
  "submitQuote ar srv l tenderValue tenderCost st =
     (let tenderMargin = num_sub ar tenderValue tenderCost;
          tenderMarginPercent = num_mul ar (num_div ar tenderMargin tenderValue) (Num 100);
          previousSubmissions = getQuoteSubmissionCount (actions st);
          quoteVersion = previousSubmissions + 1;
          detailsText = joinLines (quoteSummaryLines (gateAnswers st) quoteVersion
                          tenderValue tenderCost tenderMargin tenderMarginPercent);
          a = \<lparr>deal_id = lead_id l,
               action_type = Some (''Stage gate: Quote Submitted (v'' @ string_of_nat quoteVersion @ '')''),
               notes_txt = Some detailsText,
               file_url = None\<rparr>;
          st1 = (if srv (Insert a) then st\<lparr>actions := a # actions st\<rparr> else st);
          st2 = (if \<not> srv (UpdateTender tenderValue tenderCost tenderMargin tenderMarginPercent)
                 then st1\<lparr>error := Some errTenderUpdate\<rparr>
                 else st1\<lparr>stored := setTender (json tenderValue) (json tenderCost)
                                         (json tenderMargin) (json tenderMarginPercent) (stored st1),
                          lead := map_option (setTender (Some tenderValue) (Some tenderCost)
                                                (Some tenderMargin) (Some tenderMarginPercent))
                                    (lead st1),
                          tenderDraft := \<lparr>draft_tender_value = toFixed 2 tenderValue,
                                          draft_tender_cost = toFixed 2 tenderCost,
                                          draft_tender_margin = toFixed 2 tenderMargin,
                                          draft_tender_margin_percent = toFixed 1 tenderMarginPercent\<rparr>\<rparr>);
          st3 = updateLeadField srv l (StageVal (Some ''Quote Submitted'')) st2
      in st3\<lparr>gateModalOpen := False, pendingStage := None, gateAnswers := []\<rparr>)"

definition handleConfirmStageChangeToQuoteSubmitted ::
  "arithmetic \<Rightarrow> (string \<Rightarrow> jsnum) \<Rightarrow> (request \<Rightarrow> bool) \<Rightarrow> page \<Rightarrow> page" where
  "handleConfirmStageChangeToQuoteSubmitted ar parseFloat srv st =
     (if pendingStage st \<noteq> Some ''Quote Submitted'' then st
      else if \<not> areAllQuoteSubmittedGateQuestionsComplete (gateAnswers st) then st
      else
        case lead st of
          None \<Rightarrow> st
        | Some l \<Rightarrow>
            let tenderValue = parseFloat (ans (gateAnswers st) ''tender_value'');
                tenderCost = parseFloat (ans (gateAnswers st) ''tender_cost'')
            in if tenderValue = NaN \<or> tenderCost = NaN \<or> tenderValue = Num 0
               then st\<lparr>error := Some errNumeric\<rparr>
               else submitQuote ar srv l tenderValue tenderCost st)"

section \<open>Deal detail page: the re-quote button\<close>

text \<open>\<open>handleRequote\<close>, behind the button that is shown while the current stage is
  Quote Submitted; \<open>ok\<close> is the answer to \<open>window.confirm\<close>.\<close>

definition errRequote :: string where
  "errRequote = ''Could not start re-quote.''"

definition handleRequote :: "(request \<Rightarrow> bool) \<Rightarrow> bool \<Rightarrow> page \<Rightarrow> page" where
  "handleRequote srv ok st =
     (case lead st of
        None \<Rightarrow> st
      | Some l \<Rightarrow>
          let st0 = st\<lparr>error := None\<rparr> in
          if \<not> ok then st0
          else
            let a = \<lparr>deal_id = lead_id l,
                     action_type = Some ''Re-quote started'',
                     notes_txt = Some (''Deal moved from Quote Submitted back to In Review '' @
                                       ''to prepare a revised quotation.''),
                     file_url = None\<rparr>;
                st1 = (if \<not> srv (Insert a) then st0\<lparr>error := Some errRequote\<rparr>
                       else st0\<lparr>actions := a # actions st0\<rparr>)
            in updateLeadField srv l (StageVal (Some ''In Review'')) st1)"

section \<open>Notions used in the statements\<close>

text \<open>A value that is a number, as the rank and the weight of a deal are unless its
  stage or its probability is a name that objects inherit.\<close>

definition isNumber :: "jsnum js \<Rightarrow> bool" where
  "isNumber x = (case x of Val n \<Rightarrow> True | _ \<Rightarrow> False)"

text \<open>The four criteria of the comparison as one tuple, ordered lexicographically: stage
  rank, weight, tender value, enquiry time.  It is used for deals whose rank and weight
  are numbers and whose enquiry date, when there is one, parses.\<close>

definition rankKey ::
  "(string \<Rightarrow> jsnum) \<Rightarrow> (string \<Rightarrow> jsdate option) \<Rightarrow> deal
     \<Rightarrow> (int \<times> rat) \<times> (int \<times> rat) \<times> (int \<times> rat) \<times> (int \<times> rat)" where
  "rankKey Number newDate d =
     (numOrder (toNum (stagePriority (stage d))), numOrder (toNum (getDealWeight d)),
      numOrder (toNumber Number (tender_value d)), numOrder (enquiryTime newDate d))"

text \<open>A deal that the comparison ranks by numbers throughout: its rank and its weight
  are numbers, and its enquiry date, when there is one, parses.\<close>

definition comparable :: "(string \<Rightarrow> jsdate option) \<Rightarrow> deal \<Rightarrow> bool" where
  "comparable newDate d \<longleftrightarrow>
     isNumber (stagePriority (stage d)) \<and> isNumber (getDealWeight d) \<and>
     enquiryTime newDate d \<noteq> NaN"

text \<open>What the collapsing loop holds under one key after one more deal.\<close>

definition bestOf :: "(deal \<Rightarrow> deal \<Rightarrow> deal) \<Rightarrow> string \<Rightarrow> deal \<Rightarrow> deal option \<Rightarrow> deal option" where
  "bestOf pick k d acc =
     (if groupKey d = k then (case acc of None \<Rightarrow> Some d | Some e \<Rightarrow> Some (pick e d)) else acc)"

text \<open>The financial year of a deal's enquiry date, when the date is present and parses.\<close>

definition fyOf :: "(string \<Rightarrow> jsdate option) \<Rightarrow> deal \<Rightarrow> int option" where
  "fyOf newDate d = map_option getFinancialYearEnd (parsedDate newDate (enquiry_date d))"

text \<open>A deal the two start-month loops pass over: stage Lost or No Tender (in any
  letter case), or an estimated start date that is absent, empty or does not parse.\<close>

definition skippedDeal :: "(string \<Rightarrow> jsdate option) \<Rightarrow> deal \<Rightarrow> bool" where
  "skippedDeal newDate d =
     (toLowerCase (orEmpty (stage d)) = ''lost'' \<or>
      toLowerCase (orEmpty (stage d)) = ''no tender'' \<or>
      parsedDate newDate (estimated_start_date d) = None)"

text \<open>How many deals of a list fall in a financial year, and what the loop of the
  financial-year summary keeps true of its map: one row per year met so far, labelled
  with that year and counting its deals.\<close>

definition fyCount :: "(string \<Rightarrow> jsdate option) \<Rightarrow> int \<Rightarrow> deal list \<Rightarrow> nat" where
  "fyCount newDate y deals = length (filter (\<lambda>d. fyOf newDate d = Some y) deals)"

definition fyInv :: "(string \<Rightarrow> jsdate option) \<Rightarrow> (int \<times> FyTenderRow) list \<Rightarrow> deal list \<Rightarrow> bool" where
  "fyInv D m xs \<longleftrightarrow>
     distinct (map fst m) \<and>
     (\<forall>y. (map_of m y = None \<longrightarrow> fyCount D y xs = 0) \<and>
          (\<forall>r. map_of m y = Some r \<longrightarrow>
             fyEndYear r = y \<and> tenders r = fyCount D y xs \<and> 0 < tenders r))"

text \<open>The transition relation in the words of the specification: the forward path,
  any stage but No Tender to No Tender, and the re-quote step back.\<close>

definition specAllowed :: "string \<Rightarrow> string \<Rightarrow> bool" where
  "specAllowed cur tgt =
     ((cur = ''Received'' \<and> tgt = ''Qualified'') \<or>
      (cur = ''Qualified'' \<and> tgt = ''In Review'') \<or>
      (cur = ''In Review'' \<and> tgt = ''Quote Submitted'') \<or>
      (cur = ''Quote Submitted'' \<and> tgt = ''Won'') \<or>
      (cur = ''Quote Submitted'' \<and> tgt = ''Lost'') \<or>
      (cur \<noteq> ''No Tender'' \<and> tgt = ''No Tender'') \<or>
      (cur = ''Quote Submitted'' \<and> tgt = ''In Review''))"

section \<open>Sample data\<close>

definition blankDeal :: deal where
  "blankDeal =
     \<lparr>ident = ''d0'', ap_number = None, company_id = None, site_name = None,
      enquiry_date = None, tender_return_date = None, stage = None, probability = None,
      tender_value = None, salesperson = None, estimated_start_date = None,
      works_category = None, works_subcategory = None\<rparr>"

text \<open>A platform that parses nothing: every number is \<open>NaN\<close>, every date invalid.\<close>

definition noNumber :: "string \<Rightarrow> jsnum" where
  "noNumber s = NaN"

definition noDate :: "string \<Rightarrow> jsdate option" where
  "noDate s = None"

text \<open>
  The arithmetic that a JavaScript engine has, spelled out for the samples: the exact
  result is rounded to the nearest double, to the one with the even last digit when two
  are as near; a double has 53 binary digits above the exponent -1022, fewer below, and
  a result beyond the largest double is an infinity.  A zero divisor is taken for the
  positive zero.
\<close>

function log2floor :: "int \<Rightarrow> int" where
  "log2floor n = (if n < 2 then 0 else 1 + log2floor (n div 2))"
  by pat_completeness auto
termination
  by (relation "measure nat") auto

declare log2floor.simps [simp del]

definition pow2 :: "int \<Rightarrow> rat" where
  "pow2 e = (if 0 \<le> e then 2 ^ nat e else 1 / 2 ^ nat (- e))"

definition roundHalfEven :: "rat \<Rightarrow> int" where
  "roundHalfEven x =
     (let f = \<lfloor>x\<rfloor>; d = x - of_int f in
      if d < 1 / 2 then f else if 1 / 2 < d then f + 1 else if even f then f else f + 1)"

text \<open>The exponent \<open>e\<close> of a positive number \<open>x\<close>: \<open>2^e \<le> x < 2^(e+1)\<close>.\<close>

definition exponentOf :: "rat \<Rightarrow> int" where
  "exponentOf x =
     (let (p, q) = quotient_of x;
          e0 = log2floor p - log2floor q
      in if pow2 e0 \<le> x then e0 else e0 - 1)"

text \<open>The largest double, \<open>2^1024 - 2^971\<close>.\<close>

definition maxDouble :: rat where
  "maxDouble = 179769313486231570814527423731704356798070567525844996598917476803157260780028538760589558632766878171540458953514382464234321326889464182768467546703537516986049910576551282076245490090389328944075868508455133942304583236903222948165808559332123348274797826204144723168738177180919299881250404026184124858368"

definition toDouble :: "rat \<Rightarrow> jsnum" where
  "toDouble x =
     (if x = 0 then Num 0
      else
        let e = max (exponentOf \<bar>x\<bar>) (- 1022);
            q = pow2 (e - 52);
            r = of_int (roundHalfEven (\<bar>x\<bar> / q)) * q
        in if maxDouble < r then (if x < 0 then NegInf else PosInf)
           else Num (if x < 0 then - r else r))"

definition negative :: "jsnum \<Rightarrow> bool" where
  "negative x = (case x of NegInf \<Rightarrow> True | Num r \<Rightarrow> r < 0 | _ \<Rightarrow> False)"

definition infinity :: "bool \<Rightarrow> jsnum" where
  "infinity neg = (if neg then NegInf else PosInf)"

definition double_add :: "jsnum \<Rightarrow> jsnum \<Rightarrow> jsnum" where
  "double_add x y =
     (case (x, y) of
        (Num a, Num b) \<Rightarrow> toDouble (a + b)
      | (NaN, _) \<Rightarrow> NaN
      | (_, NaN) \<Rightarrow> NaN
      | (Num a, _) \<Rightarrow> y
      | (_, Num b) \<Rightarrow> x
      | _ \<Rightarrow> if x = y then x else NaN)"

definition double_sub :: "jsnum \<Rightarrow> jsnum \<Rightarrow> jsnum" where
  "double_sub x y =
     double_add x (case y of NaN \<Rightarrow> NaN | NegInf \<Rightarrow> PosInf | PosInf \<Rightarrow> NegInf | Num b \<Rightarrow> Num (- b))"

definition double_mul :: "jsnum \<Rightarrow> jsnum \<Rightarrow> jsnum" where
  "double_mul x y =
     (case (x, y) of
        (Num a, Num b) \<Rightarrow> toDouble (a * b)
      | (NaN, _) \<Rightarrow> NaN
      | (_, NaN) \<Rightarrow> NaN
      | _ \<Rightarrow> if x = Num 0 \<or> y = Num 0 then NaN else infinity (negative x \<noteq> negative y))"

definition double_div :: "jsnum \<Rightarrow> jsnum \<Rightarrow> jsnum" where
  "double_div x y =
     (case (x, y) of
        (Num a, Num b) \<Rightarrow>
          if b \<noteq> 0 then toDouble (a / b) else if a = 0 then NaN else infinity (a < 0)
      | (NaN, _) \<Rightarrow> NaN
      | (_, NaN) \<Rightarrow> NaN
      | (Num a, _) \<Rightarrow> Num 0
      | (_, Num b) \<Rightarrow> infinity (negative x \<noteq> negative y)
      | _ \<Rightarrow> NaN)"

definition doubleArithmetic :: arithmetic where
  "doubleArithmetic =
     \<lparr>num_add = double_add, num_sub = double_sub, num_mul = double_mul, num_div = double_div\<rparr>"

text \<open>Two tenders for project AP1, both just received, nothing else filled in; and two
  more, one with an enquiry date that is no date.\<close>

definition tenderOne :: deal where
  "tenderOne = blankDeal\<lparr>ident := ''t1'', ap_number := Some 1, stage := Some ''Received''\<rparr>"

definition tenderTwo :: deal where
  "tenderTwo = blankDeal\<lparr>ident := ''t2'', ap_number := Some 1, stage := Some ''Received''\<rparr>"

definition undatedTender :: deal where
  "undatedTender = blankDeal\<lparr>ident := ''t3'', ap_number := Some 7\<rparr>"

definition misdatedTender :: deal where
  "misdatedTender =
     blankDeal\<lparr>ident := ''t4'', ap_number := Some 7, enquiry_date := Some ''soon''\<rparr>"

text \<open>Two received tenders of one project that carry the same enquiry date, which is no
  date; and a tender whose probability is the word \<open>constructor\<close>, beside one graded
  A.\<close>

definition firstMisdated :: deal where
  "firstMisdated =
     blankDeal\<lparr>ident := ''t5'', ap_number := Some 9, stage := Some ''Received'',
       enquiry_date := Some ''tbc''\<rparr>"

definition secondMisdated :: deal where
  "secondMisdated = firstMisdated\<lparr>ident := ''t6''\<rparr>"

definition oddDeal :: deal where
  "oddDeal =
     blankDeal\<lparr>ident := ''t7'', ap_number := Some 3, stage := Some ''Received'',
       probability := Some ''constructor'', tender_value := Some (TNum (Num 100))\<rparr>"

definition gradedDeal :: deal where
  "gradedDeal = oddDeal\<lparr>ident := ''t8'', probability := Some ''A''\<rparr>"

text \<open>The two deals of the collapsing scenario of the specification.\<close>

definition qualifiedDeal :: deal where
  "qualifiedDeal =
     blankDeal\<lparr>ident := ''q1'', ap_number := Some 1, stage := Some ''Qualified'',
       probability := Some ''B'', tender_value := Some (TNum (Num 100))\<rparr>"

definition quotedDeal :: deal where
  "quotedDeal =
     blankDeal\<lparr>ident := ''q2'', ap_number := Some 1, stage := Some ''Quote Submitted'',
       probability := Some ''A'', tender_value := Some (TNum (Num 80))\<rparr>"

text \<open>What \<open>new Date\<close> answers for three date strings in a browser on UK time.\<close>

definition sampleDates :: "string \<Rightarrow> jsdate option" where
  "sampleDates =
     map_of
       [(''2024-12-15'', \<lparr>getFullYear = 2024, getMonth = 11, getTime = 1734220800000\<rparr>),
        (''2025-11-30'', \<lparr>getFullYear = 2025, getMonth = 10, getTime = 1764460800000\<rparr>),
        (''2025-12-01'', \<lparr>getFullYear = 2025, getMonth = 11, getTime = 1764547200000\<rparr>)]"

text \<open>A lost deal and an open deal that both start in November 2025, the forecast
  filters left empty, and a deal per enquiry day.\<close>

definition lostDeal :: deal where
  "lostDeal =
     blankDeal\<lparr>ident := ''l1'', ap_number := Some 2, stage := Some ''Lost'',
       probability := Some ''A'', tender_value := Some (TNum (Num 1000)),
       enquiry_date := Some ''2024-12-15'', estimated_start_date := Some ''2025-11-30''\<rparr>"

definition startingDeal :: deal where
  "startingDeal =
     quotedDeal\<lparr>enquiry_date := Some ''2025-12-01'', estimated_start_date := Some ''2025-11-30''\<rparr>"

definition noFilters :: ForecastFilters where
  "noFilters = \<lparr>today = 0, forecastFromMonth = [], forecastToMonth = [], excludeStartedWon = True\<rparr>"

definition fyDeal :: "string \<Rightarrow> deal" where
  "fyDeal day = blankDeal\<lparr>ident := day, enquiry_date := Some day\<rparr>"

text \<open>A store that accepts every request.\<close>

definition acceptAll :: "request \<Rightarrow> bool" where
  "acceptAll r = True"

text \<open>A deal as it is created, and the page that shows it.\<close>

definition newLead :: Lead where
  "newLead =
     \<lparr>lead_id = ''deal-1'', lead_stage = Some ''Received'', lead_probability = None,
      lead_tender_value = None, lead_tender_cost = None, lead_tender_margin = None,
      lead_tender_margin_percent = None, lead_tender_return_date = None,
      lead_estimated_start_date = None\<rparr>"

definition pageOf :: "Lead \<Rightarrow> page" where
  "pageOf l =
     \<lparr>lead = Some l, error = None, actions = [], gateModalOpen = False, pendingStage = None,
      gateAnswers = [],
      tenderDraft = \<lparr>draft_tender_value = [], draft_tender_cost = [], draft_tender_margin = [],
                     draft_tender_margin_percent = []\<rparr>,
      stored = l\<rparr>"

text \<open>A deal still in Received whose tender summary has been filled in, a deal marked
  No Tender, a deal in review, and a deal whose quote has been submitted.\<close>

definition pricedLead :: Lead where
  "pricedLead =
     newLead\<lparr>lead_probability := Some ''B'', lead_tender_value := Some (Num 100),
       lead_tender_cost := Some (Num 75), lead_tender_margin := Some (Num 25),
       lead_tender_margin_percent := Some (Num 25)\<rparr>"

definition noTenderLead :: Lead where
  "noTenderLead = pricedLead\<lparr>lead_stage := Some ''No Tender'', lead_probability := None\<rparr>"

definition reviewLead :: Lead where
  "reviewLead = newLead\<lparr>lead_stage := Some ''In Review''\<rparr>"

definition quotedLead :: Lead where
  "quotedLead = pricedLead\<lparr>lead_stage := Some ''Quote Submitted''\<rparr>"

text \<open>The answers typed into the quoting gate: value 100, cost 75, and a margin and a
  margin percent that do not follow from them.\<close>

definition typedAnswers :: "(string \<times> string) list" where
  "typedAnswers =
     [(''quote_reference'', ''Q-1''), (''quote_date'', ''2025-03-01''),
      (''quote_submission_link'', ''https://x/q''), (''quote_drawings_link'', ''https://x/d''),
      (''tender_value'', '' 100 ''), (''tender_cost'', ''75''),
      (''tender_margin'', ''999''), (''tender_margin_percent'', ''99.9''),
      (''key_material_rates'', ''Yes''), (''overall_duration'', ''12 weeks''),
      (''phases_priced'', ''all'')]"

text \<open>What \<open>parseFloat\<close> answers for the strings of the samples.\<close>

definition sampleParseFloat :: "string \<Rightarrow> jsnum" where
  "sampleParseFloat s =
     (case map_of [(''100'', Num 100), (''75'', Num 75), (''0'', Num 0), (''80'', Num 80),
                   (''29'', Num 29)] s of
        Some n \<Rightarrow> n | None \<Rightarrow> NaN)"

text \<open>The quoting gate opened from the deal in review and filled in; the same form with
  a tender value of 0, and with a value of 80 and a cost of 29; and the form opened on a
  deal whose timeline already holds a first quote submission, a re-quote and a note.\<close>

definition firstGate :: page where
  "firstGate =
     (handleStageClick acceptAll True ''Quote Submitted'' (pageOf reviewLead))
       \<lparr>gateAnswers := typedAnswers\<rparr>"

definition zeroValueGate :: page where
  "zeroValueGate = firstGate\<lparr>gateAnswers := (''tender_value'', ''0'') # typedAnswers\<rparr>"

definition roundingGate :: page where
  "roundingGate =
     firstGate\<lparr>gateAnswers := (''tender_value'', ''80'') # (''tender_cost'', ''29'') # typedAnswers\<rparr>"

definition earlierTimeline :: "DealAction list" where
  "earlierTimeline =
     [\<lparr>deal_id = ''deal-1'', action_type = Some ''Re-quote started'', notes_txt = None,
        file_url = None\<rparr>,
      \<lparr>deal_id = ''deal-1'', action_type = Some ''Stage gate: Quote Submitted (v1)'',
        notes_txt = None, file_url = None\<rparr>,
      \<lparr>deal_id = ''deal-1'', action_type = None, notes_txt = Some ''Phoned the client'',
        file_url = None\<rparr>]"

definition againGate :: page where
  "againGate =
     (handleStageClick acceptAll True ''Quote Submitted''
        ((pageOf reviewLead)\<lparr>actions := earlierTimeline\<rparr>))
       \<lparr>gateAnswers := typedAnswers\<rparr>"

section \<open>Properties of the association-list map\<close>

lemma map_of_map_set: "map_of (map_set k v m) k' = (if k' = k then Some v else map_of m k')"
  by (induction m) auto

lemma fst_map_set: "fst ` set (map_set k v m) = insert k (fst ` set m)"
  by (induction m) force+

lemma distinct_map_set: "distinct (map fst m) \<Longrightarrow> distinct (map fst (map_set k v m))"
  by (induction m) (auto simp: fst_map_set)

section \<open>Properties of the comparisons\<close>

lemma numOrder_inj: "x \<noteq> NaN \<Longrightarrow> y \<noteq> NaN \<Longrightarrow> numOrder x = numOrder y \<longleftrightarrow> x = y"
  by (cases x; cases y) (simp_all add: numOrder_def)

lemma toNumber_number: "toNumber Number v \<noteq> NaN"
  by (simp add: toNumber_def Let_def split: option.splits tender_val.splits)

lemma rank_number:
  assumes "stagePriority s = Val n"
  shows "n \<noteq> NaN"
proof (cases "map_of STAGE_PRIORITY (toLowerCase (orEmpty s))")
  case None
  then have "getProp STAGE_PRIORITY (toLowerCase (orEmpty s)) \<noteq> Val n'" for n'
    by (auto simp: getProp_def objectPrototype_def split: option.splits if_splits)
  with assms show ?thesis
    by (auto simp: stagePriority_def nullish_def split: js.splits)
next
  case (Some v)
  then have "v \<in> snd ` set STAGE_PRIORITY" by (force dest: map_of_SomeD)
  then have "v \<noteq> NaN" by (auto simp: STAGE_PRIORITY_def)
  with assms Some show ?thesis
    by (simp add: stagePriority_def nullish_def getProp_def)
qed

lemma weight_number:
  assumes "getDealWeight d = Val w"
  shows "w \<noteq> NaN"
proof -
  have t: "getProp PROB_WEIGHTS p = Val w \<Longrightarrow> truthy (getProp PROB_WEIGHTS p) \<Longrightarrow> w \<noteq> NaN" for p
    by (simp add: truthy_def)
  show ?thesis using assms t
    by (auto simp: getDealWeight_def Let_def split: option.splits if_splits)
qed

lemma lex4:
  fixes a1 b1 :: "'a::linorder" and a2 b2 :: "'b::linorder" and a3 b3 :: "'c::linorder"
    and a4 b4 :: "'d::linorder"
  shows "(if a1 \<noteq> b1 then (if b1 < a1 then x else y)
          else if a2 \<noteq> b2 then (if b2 < a2 then x else y)
          else if a3 \<noteq> b3 then (if b3 < a3 then x else y)
          else if b4 \<le> a4 then x else y) =
         (if (b1, b2, b3, b4) \<le> (a1, a2, a3, a4) then x else y)"
  by (auto simp: less_eq_prod_def less_prod_def)

section \<open>The comparison picks the larger rank key\<close>

text \<open>Between two deals that are ranked by numbers throughout, the comparison returns
  the one that is larger in the four criteria taken in order, and the first on a tie.\<close>

lemma choose_is_max:
  assumes "comparable newDate a" and "comparable newDate b"
  shows "chooseBestDealForAp Number newDate a b =
         (if rankKey Number newDate b \<le> rankKey Number newDate a then a else b)"
proof -
  obtain pa wa pb wb where v:
      "stagePriority (stage a) = Val pa" "getDealWeight a = Val wa"
      "stagePriority (stage b) = Val pb" "getDealWeight b = Val wb"
    using assms by (auto simp: comparable_def isNumber_def split: js.splits)
  have n: "pa \<noteq> NaN" "wa \<noteq> NaN" "pb \<noteq> NaN" "wb \<noteq> NaN"
    using v rank_number weight_number by blast+
  have t: "enquiryTime newDate a \<noteq> NaN" "enquiryTime newDate b \<noteq> NaN"
    using assms by (simp_all add: comparable_def)
  have e: "x \<noteq> NaN \<Longrightarrow> y \<noteq> NaN \<Longrightarrow> num_eq x y \<longleftrightarrow> numOrder x = numOrder y" for x y
    by (simp add: num_eq_def numOrder_inj)
  have c: "chooseBestDealForAp Number newDate a b =
       (if numOrder pa \<noteq> numOrder pb then (if numOrder pb < numOrder pa then a else b)
        else if numOrder wa \<noteq> numOrder wb then (if numOrder wb < numOrder wa then a else b)
        else if numOrder (toNumber Number (tender_value a)) \<noteq>
                numOrder (toNumber Number (tender_value b))
          then (if numOrder (toNumber Number (tender_value b)) <
                   numOrder (toNumber Number (tender_value a))
                then a else b)
        else if numOrder (enquiryTime newDate b) \<le> numOrder (enquiryTime newDate a) then a else b)"
    unfolding chooseBestDealForAp_def Let_def v
    using n t toNumber_number[of Number "tender_value a"] toNumber_number[of Number "tender_value b"]
    by (simp add: strictEq_def js_gt_def primitiveText_def toNum_def e num_gt_def num_ge_def)
  show ?thesis unfolding c rankKey_def v toNum_def by (simp add: lex4)
qed

lemma forecast_same: "chooseBetterDealForForecast = chooseBestDealForAp"
  by (intro ext) (simp add: chooseBetterDealForForecast_def chooseBestDealForAp_def)

lemma collapse_forecast_same: "collapseDealsByAp_forecast = collapseDealsByAp"
  by (intro ext) (simp add: collapseDealsByAp_forecast_def collapseDealsByAp_def forecast_same)

lemma pick_either: "chooseBestDealForAp N D a b = a \<or> chooseBestDealForAp N D a b = b"
  by (simp add: chooseBestDealForAp_def Let_def)

section \<open>The collapsing loop, key by key\<close>

lemma lookup_step: "map_of (collapseStep pick d m) k = bestOf pick k d (map_of m k)"
  by (auto simp: collapseStep_def bestOf_def Let_def map_of_map_set split: option.splits)

lemma lookup_fold:
  "map_of (fold (collapseStep pick) xs m) k = fold (bestOf pick k) xs (map_of m k)"
  by (induction xs arbitrary: m) (simp_all add: lookup_step)

lemma distinct_step: "distinct (map fst m) \<Longrightarrow> distinct (map fst (collapseStep pick d m))"
  by (simp add: collapseStep_def Let_def distinct_map_set split: option.splits)

lemma distinct_fold:
  "distinct (map fst m) \<Longrightarrow> distinct (map fst (fold (collapseStep pick) xs m))"
  by (induction xs arbitrary: m) (simp_all add: distinct_step)

lemma best_fold_none:
  "fold (bestOf pick k) xs init = None \<longleftrightarrow> init = None \<and> (\<forall>d\<in>set xs. groupKey d \<noteq> k)"
  by (induction xs arbitrary: init) (auto simp: bestOf_def split: option.splits)

lemma best_fold_mem:
  assumes "fold (bestOf (chooseBestDealForAp N D) k) xs init = Some v"
  shows "(v \<in> set xs \<and> groupKey v = k) \<or> init = Some v"
  using assms
proof (induction xs arbitrary: init)
  case Nil
  then show ?case by simp
next
  case (Cons x xs)
  from Cons.prems have "fold (bestOf (chooseBestDealForAp N D) k) xs
     (bestOf (chooseBestDealForAp N D) k x init) = Some v" by simp
  from Cons.IH[OF this] show ?case
  proof
    assume "v \<in> set xs \<and> groupKey v = k"
    then show ?thesis by simp
  next
    assume step: "bestOf (chooseBestDealForAp N D) k x init = Some v"
    show ?thesis
    proof (cases init)
      case None
      with step show ?thesis
        by (auto simp: bestOf_def split: if_splits)
    next
      case (Some e)
      with step pick_either[of N D e x] show ?thesis
        by (auto simp: bestOf_def split: if_splits)
    qed
  qed
qed

lemma best_fold_ub:
  assumes "fold (bestOf (chooseBestDealForAp N D) k) xs init = Some v"
      and "\<forall>d\<in>set xs. comparable D d"
      and "\<forall>e. init = Some e \<longrightarrow> comparable D e"
  shows "(\<forall>d\<in>set xs. groupKey d = k \<longrightarrow> rankKey N D d \<le> rankKey N D v) \<and>
         (\<forall>e. init = Some e \<longrightarrow> rankKey N D e \<le> rankKey N D v)"
  using assms
proof (induction xs arbitrary: init)
  case Nil
  then show ?case by simp
next
  case (Cons x xs)
  let ?init' = "bestOf (chooseBestDealForAp N D) k x init"
  have x: "comparable D x" using Cons.prems(2) by simp
  have res: "fold (bestOf (chooseBestDealForAp N D) k) xs ?init' = Some v"
    using Cons.prems(1) by simp
  have nn: "\<forall>e. ?init' = Some e \<longrightarrow> comparable D e"
  proof (cases init)
    case None
    then show ?thesis using x by (auto simp: bestOf_def)
  next
    case (Some e0)
    then show ?thesis using Cons.prems(3) x pick_either[of N D e0 x]
      by (auto simp: bestOf_def)
  qed
  have xs: "\<forall>d\<in>set xs. comparable D d" using Cons.prems(2) by simp
  from Cons.IH[OF res xs nn]
  have ih1: "\<forall>d\<in>set xs. groupKey d = k \<longrightarrow> rankKey N D d \<le> rankKey N D v"
   and ih2: "\<forall>e. ?init' = Some e \<longrightarrow> rankKey N D e \<le> rankKey N D v" by blast+
  have a: "groupKey x = k \<longrightarrow> rankKey N D x \<le> rankKey N D v"
  proof
    assume g: "groupKey x = k"
    show "rankKey N D x \<le> rankKey N D v"
    proof (cases init)
      case None
      then have "?init' = Some x" using g by (simp add: bestOf_def)
      with ih2 show ?thesis by simp
    next
      case (Some e)
      then have e: "comparable D e" using Cons.prems(3) by simp
      have i: "?init' = Some (chooseBestDealForAp N D e x)" using g Some by (simp add: bestOf_def)
      have "rankKey N D x \<le> rankKey N D (chooseBestDealForAp N D e x)"
        using choose_is_max[OF e x, of N] by auto
      also have "\<dots> \<le> rankKey N D v" using ih2 i by simp
      finally show ?thesis .
    qed
  qed
  have b: "\<forall>e. init = Some e \<longrightarrow> rankKey N D e \<le> rankKey N D v"
  proof (intro allI impI)
    fix e assume Some: "init = Some e"
    then have e: "comparable D e" using Cons.prems(3) by simp
    show "rankKey N D e \<le> rankKey N D v"
    proof (cases "groupKey x = k")
      case True
      have i: "?init' = Some (chooseBestDealForAp N D e x)" using True Some by (simp add: bestOf_def)
      have "rankKey N D e \<le> rankKey N D (chooseBestDealForAp N D e x)"
        using choose_is_max[OF e x, of N] by auto
      also have "\<dots> \<le> rankKey N D v" using ih2 i by simp
      finally show ?thesis .
    next
      case False
      then have "?init' = Some e" using Some by (simp add: bestOf_def)
      with ih2 show ?thesis by simp
    qed
  qed
  from a b ih1 show ?case by simp
qed

text \<open>When no group has two different deals on top, the collapsed deals are the deals
  that are largest in their group: a set that the order of the input has no part in.\<close>

lemma collapse_set:
  assumes num: "\<forall>d\<in>set xs. comparable D d"
      and top: "\<forall>a\<in>set xs. \<forall>b\<in>set xs.
                  groupKey a = groupKey b \<and> rankKey N D a = rankKey N D b \<and>
                  (\<forall>c\<in>set xs. groupKey c = groupKey a \<longrightarrow> rankKey N D c \<le> rankKey N D a)
                  \<longrightarrow> a = b"
  shows "set (collapseDealsByAp N D xs) =
         {v \<in> set xs. \<forall>d\<in>set xs. groupKey d = groupKey v \<longrightarrow> rankKey N D d \<le> rankKey N D v}"
    (is "?L = ?R")
proof -
  let ?m = "fold (collapseStep (chooseBestDealForAp N D)) xs []"
  have dist: "distinct (map fst ?m)" by (rule distinct_fold) simp
  have mem: "v \<in> ?L \<longleftrightarrow> (\<exists>k. map_of ?m k = Some v)" for v
    using dist by (force simp: collapseDealsByAp_def map_values_def)
  have look: "map_of ?m k = fold (bestOf (chooseBestDealForAp N D) k) xs None" for k
    by (simp add: lookup_fold)
  show ?thesis
  proof (intro set_eqI iffI)
    fix v assume "v \<in> ?L"
    then obtain k where k: "fold (bestOf (chooseBestDealForAp N D) k) xs None = Some v"
      using mem look by auto
    from best_fold_mem[OF k] have 1: "v \<in> set xs" "groupKey v = k" by auto
    from best_fold_ub[OF k num]
    have "\<forall>d\<in>set xs. groupKey d = k \<longrightarrow> rankKey N D d \<le> rankKey N D v"
      by simp
    with 1 show "v \<in> ?R" by simp
  next
    fix v assume v: "v \<in> ?R"
    then have vin: "v \<in> set xs" by simp
    have vtop: "\<forall>c\<in>set xs. groupKey c = groupKey v \<longrightarrow> rankKey N D c \<le> rankKey N D v"
      using v by simp
    have "fold (bestOf (chooseBestDealForAp N D) (groupKey v)) xs None \<noteq> None"
      using vin by (auto simp: best_fold_none)
    then obtain v' where k: "fold (bestOf (chooseBestDealForAp N D) (groupKey v)) xs None = Some v'"
      by blast
    from best_fold_mem[OF k] have 1: "v' \<in> set xs" "groupKey v' = groupKey v" by auto
    from best_fold_ub[OF k num] vin have "rankKey N D v \<le> rankKey N D v'" by simp
    moreover from vtop 1 have "rankKey N D v' \<le> rankKey N D v" by simp
    ultimately have "rankKey N D v = rankKey N D v'" by simp
    with top vin 1 vtop have "v = v'" by metis
    with k show "v \<in> ?L" using mem look by auto
  qed
qed

section \<open>The forecast weight\<close>

text \<open>For a probability that is not a name objects inherit, the weight is as the
  comment above \<open>getDealWeight\<close> describes it.\<close>

lemma getDealWeight_table:
  "(stage d = Some ''Won'' \<longrightarrow> getDealWeight d = Val (Num 1)) \<and>
   (stage d = Some ''Lost'' \<or> stage d = Some ''No Tender'' \<longrightarrow> getDealWeight d = Val (Num 0)) \<and>
   (toLowerCase (orEmpty (stage d)) \<notin> {''won'', ''lost'', ''no tender''} \<longrightarrow>
      (probability d = Some ''A'' \<longrightarrow> getDealWeight d = Val (Num (3 / 4))) \<and>
      (probability d = Some ''B'' \<longrightarrow> getDealWeight d = Val (Num (1 / 2))) \<and>
      (probability d = Some ''C'' \<longrightarrow> getDealWeight d = Val (Num (1 / 4))) \<and>
      (probability d = Some ''D'' \<longrightarrow> getDealWeight d = Val (Num oneTenth)) \<and>
      (probability d = None \<longrightarrow> getDealWeight d = Val (Num 0)) \<and>
      (\<forall>p. probability d = Some p \<and> p \<notin> {''A'', ''B'', ''C'', ''D''} \<and>
            map_of (objectPrototype :: (string \<times> jsnum js) list) p = None \<longrightarrow>
         getDealWeight d = Val (Num 0)))"
proof -
  have won: "stage d = Some ''Won'' \<longrightarrow> getDealWeight d = Val (Num 1)"
    by (simp add: getDealWeight_def orEmpty_def toLowerCase_def lowerChar_def)
  have lost: "stage d = Some ''Lost'' \<or> stage d = Some ''No Tender'' \<longrightarrow>
      getDealWeight d = Val (Num 0)"
    by (auto simp add: getDealWeight_def orEmpty_def toLowerCase_def lowerChar_def)
  have own: "getProp PROB_WEIGHTS ''A'' = Val (Num (3 / 4))" "getProp PROB_WEIGHTS ''B'' = Val (Num (1 / 2))"
      "getProp PROB_WEIGHTS ''C'' = Val (Num (1 / 4))" "getProp PROB_WEIGHTS ''D'' = Val (Num oneTenth)"
    by (simp_all add: getProp_def PROB_WEIGHTS_def)
  have t: "oneTenth \<noteq> 0" by (simp add: oneTenth_def)
  have other: "p \<notin> {''A'', ''B'', ''C'', ''D''} \<Longrightarrow>
      map_of (objectPrototype :: (string \<times> jsnum js) list) p = None \<Longrightarrow>
      getProp PROB_WEIGHTS p = Undefined" for p
    by (simp add: getProp_def PROB_WEIGHTS_def)
  have opn: "toLowerCase (orEmpty (stage d)) \<notin> {''won'', ''lost'', ''no tender''} \<Longrightarrow>
      (probability d = Some ''A'' \<longrightarrow> getDealWeight d = Val (Num (3 / 4))) \<and>
      (probability d = Some ''B'' \<longrightarrow> getDealWeight d = Val (Num (1 / 2))) \<and>
      (probability d = Some ''C'' \<longrightarrow> getDealWeight d = Val (Num (1 / 4))) \<and>
      (probability d = Some ''D'' \<longrightarrow> getDealWeight d = Val (Num oneTenth)) \<and>
      (probability d = None \<longrightarrow> getDealWeight d = Val (Num 0)) \<and>
      (\<forall>p. probability d = Some p \<and> p \<notin> {''A'', ''B'', ''C'', ''D''} \<and>
            map_of (objectPrototype :: (string \<times> jsnum js) list) p = None \<longrightarrow>
         getDealWeight d = Val (Num 0))"
    using own t other by (auto simp add: getDealWeight_def Let_def truthy_def)
  show ?thesis using won lost opn by blast
qed

text \<open>
  C6.  The weight is not a number between 0 and 1 for every deal.  For a deal in an
  open stage whose probability is a name that every object inherits, the lookup in
  \<open>PROB_WEIGHTS\<close> finds the inherited property, which is truthy, and \<open>getDealWeight\<close>
  returns it: the function \<open>Object\<close> for \<open>constructor\<close>, the function \<open>toString\<close> for
  \<open>toString\<close>, the prototype object for \<open>__proto__\<close>.  The comment above the function and
  its result type promise the number 0 there, as a probability such as \<open>E\<close> gets it.
\<close>

theorem getDealWeight_inherited_name:
  "stage oddDeal = Some ''Received'' \<and> probability oddDeal = Some ''constructor'' \<and>
   getDealWeight oddDeal = Fun ''Object'' \<and>
   getDealWeight oddDeal \<noteq> Val (Num 0) \<and>
   getDealWeight (oddDeal\<lparr>probability := Some ''toString''\<rparr>) = Fun ''toString'' \<and>
   getDealWeight (oddDeal\<lparr>probability := Some ''__proto__''\<rparr>) = Proto \<and>
   getDealWeight (oddDeal\<lparr>probability := Some ''E''\<rparr>) = Val (Num 0)"
proof -
  have 1: "stage oddDeal = Some ''Received''" "probability oddDeal = Some ''constructor''"
    by (simp_all add: oddDeal_def)
  have 2: "getDealWeight oddDeal = Fun ''Object''"
    by code_simp
  have 3: "getDealWeight (oddDeal\<lparr>probability := Some ''toString''\<rparr>) = Fun ''toString''"
    by code_simp
  have 4: "getDealWeight (oddDeal\<lparr>probability := Some ''__proto__''\<rparr>) = Proto"
    by code_simp
  have 5: "getDealWeight (oddDeal\<lparr>probability := Some ''E''\<rparr>) = Val (Num 0)"
    by code_simp
  from 1 2 3 4 5 show ?thesis by simp
qed

section \<open>The pairwise comparison\<close>

text \<open>
  C7.  The comparison does not keep the first argument on every tie, and does not
  always return the deal that wins on the first criterion that differs.  Two received
  tenders that agree in stage, probability, tender value and enquiry date, the date
  being a text that is no date, tie on every criterion, and the second one is returned:
  the time value of such a date is \<open>NaN\<close>, and \<open>dA >= dB\<close> is false.  And of a tender
  graded A and a tender whose probability is \<open>constructor\<close>, the second argument is
  returned in either order: the weight of the latter is a function (C6), which is not
  greater than a number and not less.
\<close>

theorem chooseBestDealForAp_missed_cases:
  "stage firstMisdated = stage secondMisdated \<and>
   probability firstMisdated = probability secondMisdated \<and>
   tender_value firstMisdated = tender_value secondMisdated \<and>
   enquiry_date firstMisdated = enquiry_date secondMisdated \<and>
   firstMisdated \<noteq> secondMisdated \<and>
   chooseBestDealForAp noNumber noDate firstMisdated secondMisdated = secondMisdated \<and>
   chooseBetterDealForForecast noNumber noDate firstMisdated secondMisdated = secondMisdated \<and>
   gradedDeal \<noteq> oddDeal \<and>
   chooseBestDealForAp noNumber noDate gradedDeal oddDeal = oddDeal \<and>
   chooseBestDealForAp noNumber noDate oddDeal gradedDeal = gradedDeal"
proof -
  have 1: "stage firstMisdated = stage secondMisdated"
      "probability firstMisdated = probability secondMisdated"
      "tender_value firstMisdated = tender_value secondMisdated"
      "enquiry_date firstMisdated = enquiry_date secondMisdated"
    by (simp_all add: secondMisdated_def)
  have 2: "firstMisdated \<noteq> secondMisdated" "gradedDeal \<noteq> oddDeal"
    by code_simp+
  have 3: "chooseBestDealForAp noNumber noDate firstMisdated secondMisdated = secondMisdated"
    by code_simp
  have 4: "chooseBetterDealForForecast noNumber noDate firstMisdated secondMisdated = secondMisdated"
    by code_simp
  have 5: "chooseBestDealForAp noNumber noDate gradedDeal oddDeal = oddDeal"
    by code_simp
  have 6: "chooseBestDealForAp noNumber noDate oddDeal gradedDeal = gradedDeal"
    by code_simp
  from 1 2 3 4 5 6 show ?thesis by simp
qed

section \<open>Collapsing and the order of the input\<close>

text \<open>
  C8, as stated, fails: two tenders of one project that tie on every criterion are
  collapsed to whichever comes first, so the result changes with the order.  So it does
  when one of two tenders has an enquiry date that does not parse, or a probability
  that is a name objects inherit: then the one that comes last is kept.
\<close>

theorem collapse_order_counterexample:
  "mset [tenderTwo, tenderOne] = mset [tenderOne, tenderTwo] \<and>
   set (collapseDealsByAp noNumber noDate [tenderTwo, tenderOne]) \<noteq>
   set (collapseDealsByAp noNumber noDate [tenderOne, tenderTwo]) \<and>
   mset [misdatedTender, undatedTender] = mset [undatedTender, misdatedTender] \<and>
   set (collapseDealsByAp noNumber noDate [misdatedTender, undatedTender]) \<noteq>
   set (collapseDealsByAp noNumber noDate [undatedTender, misdatedTender]) \<and>
   mset [oddDeal, gradedDeal] = mset [gradedDeal, oddDeal] \<and>
   set (collapseDealsByAp noNumber noDate [oddDeal, gradedDeal]) \<noteq>
   set (collapseDealsByAp noNumber noDate [gradedDeal, oddDeal])"
proof -
  have 1: "collapseDealsByAp noNumber noDate [tenderOne, tenderTwo] = [tenderOne]"
    by code_simp
  have 2: "collapseDealsByAp noNumber noDate [tenderTwo, tenderOne] = [tenderTwo]"
    by code_simp
  have 3: "tenderOne \<noteq> tenderTwo"
    by code_simp
  have 4: "collapseDealsByAp noNumber noDate [undatedTender, misdatedTender] = [misdatedTender]"
    by code_simp
  have 5: "collapseDealsByAp noNumber noDate [misdatedTender, undatedTender] = [undatedTender]"
    by code_simp
  have 6: "undatedTender \<noteq> misdatedTender"
    by code_simp
  have 7: "collapseDealsByAp noNumber noDate [gradedDeal, oddDeal] = [oddDeal]"
    by code_simp
  have 8: "collapseDealsByAp noNumber noDate [oddDeal, gradedDeal] = [gradedDeal]"
    by code_simp
  have 9: "gradedDeal \<noteq> oddDeal"
    by code_simp
  show ?thesis unfolding 1 2 4 5 7 8 using 3 6 9 by (simp add: add.commute)
qed

text \<open>Two deals that are ranked by numbers have the same rank key exactly when they
  agree in all four criteria.\<close>

lemma rankKey_eq:
  assumes "comparable D a" and "comparable D b"
  shows "rankKey N D a = rankKey N D b \<longleftrightarrow>
     stagePriority (stage a) = stagePriority (stage b) \<and> getDealWeight a = getDealWeight b \<and>
     toNumber N (tender_value a) = toNumber N (tender_value b) \<and> enquiryTime D a = enquiryTime D b"
proof -
  obtain pa wa pb wb where v:
      "stagePriority (stage a) = Val pa" "getDealWeight a = Val wa"
      "stagePriority (stage b) = Val pb" "getDealWeight b = Val wb"
    using assms by (auto simp: comparable_def isNumber_def split: js.splits)
  have n: "pa \<noteq> NaN" "wa \<noteq> NaN" "pb \<noteq> NaN" "wb \<noteq> NaN"
    using v rank_number weight_number by blast+
  have t: "enquiryTime D a \<noteq> NaN" "enquiryTime D b \<noteq> NaN"
    using assms by (simp_all add: comparable_def)
  show ?thesis
    unfolding rankKey_def v toNum_def using n t toNumber_number[of N]
    by (simp add: numOrder_inj)
qed

text \<open>
  C8, amended.  When the rank and the weight of every deal are numbers, every enquiry
  date that is present parses, and no project key has two different deals that tie on
  stage rank, weight, tender value and enquiry time while no deal of the key is above
  them, every rearrangement of the input collapses to the same set of deals, on both
  dashboards.
\<close>

theorem collapse_order_independent_without_ties:
  assumes "mset ys = mset xs"
      and "\<forall>d\<in>set xs. isNumber (stagePriority (stage d)) \<and> isNumber (getDealWeight d) \<and>
                       enquiryTime newDate d \<noteq> NaN"
      and "\<forall>a\<in>set xs. \<forall>b\<in>set xs.
             groupKey a = groupKey b \<and>
             rankKey Number newDate a = rankKey Number newDate b \<and>
             (\<forall>c\<in>set xs. groupKey c = groupKey a \<longrightarrow>
                rankKey Number newDate c \<le> rankKey Number newDate a) \<longrightarrow> a = b"
  shows "set (collapseDealsByAp Number newDate ys) = set (collapseDealsByAp Number newDate xs) \<and>
         set (collapseDealsByAp_forecast Number newDate ys) =
           set (collapseDealsByAp_forecast Number newDate xs)"
proof -
  have s: "set ys = set xs" using assms(1) by (rule mset_eq_setD)
  have num: "\<forall>d\<in>set xs. comparable newDate d"
    using assms(2) by (simp add: comparable_def)
  have "set (collapseDealsByAp Number newDate ys) = set (collapseDealsByAp Number newDate xs)"
    using collapse_set[of xs newDate Number] collapse_set[of ys newDate Number] num assms(3) s
    by simp
  then show ?thesis by (simp add: collapse_forecast_same)
qed

theorem collapse_order_independent_witness:
  "mset [quotedDeal, tenderTwo, qualifiedDeal, tenderOne] =
     mset [qualifiedDeal, tenderOne, tenderTwo, quotedDeal] \<and>
   rankKey noNumber noDate tenderOne = rankKey noNumber noDate tenderTwo \<and>
   set (collapseDealsByAp noNumber noDate [quotedDeal, tenderTwo, qualifiedDeal, tenderOne]) =
   set (collapseDealsByAp noNumber noDate [qualifiedDeal, tenderOne, tenderTwo, quotedDeal]) \<and>
   collapseDealsByAp noNumber noDate [qualifiedDeal, tenderOne, tenderTwo, quotedDeal] = [quotedDeal]"
proof -
  let ?xs = "[qualifiedDeal, tenderOne, tenderTwo, quotedDeal]"
  have m: "mset [quotedDeal, tenderTwo, qualifiedDeal, tenderOne] = mset ?xs"
    by (simp add: add.commute add.left_commute)
  have n1: "isNumber (stagePriority (stage qualifiedDeal))" "isNumber (getDealWeight qualifiedDeal)"
      "isNumber (stagePriority (stage tenderOne))" "isNumber (getDealWeight tenderOne)"
      "isNumber (stagePriority (stage tenderTwo))" "isNumber (getDealWeight tenderTwo)"
      "isNumber (stagePriority (stage quotedDeal))" "isNumber (getDealWeight quotedDeal)"
    by code_simp+
  have n2: "enquiryTime noDate qualifiedDeal \<noteq> NaN" "enquiryTime noDate tenderOne \<noteq> NaN"
      "enquiryTime noDate tenderTwo \<noteq> NaN" "enquiryTime noDate quotedDeal \<noteq> NaN"
    by (simp_all add: enquiryTime_def qualifiedDeal_def tenderOne_def tenderTwo_def quotedDeal_def
          blankDeal_def)
  have n: "\<forall>d\<in>set ?xs. isNumber (stagePriority (stage d)) \<and> isNumber (getDealWeight d) \<and>
                       enquiryTime noDate d \<noteq> NaN"
    using n1 n2 by simp
  have g: "groupKey quotedDeal = groupKey qualifiedDeal" "groupKey quotedDeal = groupKey tenderOne"
      "groupKey quotedDeal = groupKey tenderTwo"
    by code_simp+
  have p: "\<not> rankKey noNumber noDate quotedDeal \<le> rankKey noNumber noDate qualifiedDeal"
      "\<not> rankKey noNumber noDate quotedDeal \<le> rankKey noNumber noDate tenderOne"
      "\<not> rankKey noNumber noDate quotedDeal \<le> rankKey noNumber noDate tenderTwo"
    by code_simp+
  have q: "rankKey noNumber noDate tenderOne = rankKey noNumber noDate tenderTwo"
    by code_simp
  have i: "\<forall>a\<in>set ?xs. \<forall>b\<in>set ?xs.
             groupKey a = groupKey b \<and>
             rankKey noNumber noDate a = rankKey noNumber noDate b \<and>
             (\<forall>c\<in>set ?xs. groupKey c = groupKey a \<longrightarrow>
                rankKey noNumber noDate c \<le> rankKey noNumber noDate a) \<longrightarrow> a = b"
    using p g by auto
  have c: "collapseDealsByAp noNumber noDate ?xs = [quotedDeal]"
    by code_simp
  from collapse_order_independent_without_ties [OF m n i] m q c show ?thesis by simp
qed

section \<open>The financial-year summary\<close>

lemma fyStep_none: "fyOf D x = None \<Longrightarrow> fyStep A N D x m = m"
  by (auto simp: fyOf_def fyStep_def split: option.splits)

lemma fyStep_other:
  "fyOf D x = Some y0 \<Longrightarrow> y \<noteq> y0 \<Longrightarrow> map_of (fyStep A N D x m) y = map_of m y"
  by (auto simp: fyOf_def fyStep_def Let_def map_of_map_set split: option.splits)

lemma fyStep_same:
  "fyOf D x = Some y0 \<Longrightarrow>
   \<exists>r. map_of (fyStep A N D x m) y0 = Some r \<and>
       fyEndYear r = (case map_of m y0 of Some r0 \<Rightarrow> fyEndYear r0 | None \<Rightarrow> y0) \<and>
       tenders r = (case map_of m y0 of Some r0 \<Rightarrow> tenders r0 | None \<Rightarrow> 0) + 1"
  by (auto simp: fyOf_def fyStep_def Let_def map_of_map_set split: option.splits)

lemma fyStep_distinct: "distinct (map fst m) \<Longrightarrow> distinct (map fst (fyStep A N D x m))"
  by (auto simp: fyStep_def Let_def distinct_map_set split: option.splits)

lemma fyInv_step:
  assumes "fyInv D m xs"
  shows "fyInv D (fyStep A N D x m) (xs @ [x])"
proof (cases "fyOf D x")
  case None
  then have c: "fyCount D y (xs @ [x]) = fyCount D y xs" for y
    by (simp add: fyCount_def)
  show ?thesis using assms unfolding fyInv_def fyStep_none[OF None] c .
next
  case (Some y0)
  from fyStep_same[OF Some, of A N m] obtain r where
    r: "map_of (fyStep A N D x m) y0 = Some r"
       "fyEndYear r = (case map_of m y0 of Some r0 \<Rightarrow> fyEndYear r0 | None \<Rightarrow> y0)"
       "tenders r = (case map_of m y0 of Some r0 \<Rightarrow> tenders r0 | None \<Rightarrow> 0) + 1"
    by blast
  have inv1: "map_of m y = None \<Longrightarrow> fyCount D y xs = 0" for y
    using assms unfolding fyInv_def by blast
  have inv2: "map_of m y = Some r' \<Longrightarrow>
      fyEndYear r' = y \<and> tenders r' = fyCount D y xs \<and> 0 < tenders r'" for y r'
    using assms unfolding fyInv_def by blast
  have c0: "fyCount D y0 (xs @ [x]) = fyCount D y0 xs + 1"
    using Some by (simp add: fyCount_def)
  have c1: "y \<noteq> y0 \<Longrightarrow> fyCount D y (xs @ [x]) = fyCount D y xs" for y
    using Some by (simp add: fyCount_def)
  have same: "fyEndYear r = y0 \<and> tenders r = fyCount D y0 (xs @ [x]) \<and> 0 < tenders r"
  proof (cases "map_of m y0")
    case None
    then show ?thesis using r(2,3) inv1[of y0] c0 by simp
  next
    case (Some r0)
    then show ?thesis using r(2,3) inv2[of y0 r0] c0 by simp
  qed
  have d: "distinct (map fst (fyStep A N D x m))"
    using assms by (simp add: fyInv_def fyStep_distinct)
  have "(map_of (fyStep A N D x m) y = None \<longrightarrow> fyCount D y (xs @ [x]) = 0) \<and>
        (\<forall>r'. map_of (fyStep A N D x m) y = Some r' \<longrightarrow>
           fyEndYear r' = y \<and> tenders r' = fyCount D y (xs @ [x]) \<and> 0 < tenders r')" for y
  proof (cases "y = y0")
    case True
    then show ?thesis using same r(1) by simp
  next
    case False
    have "map_of (fyStep A N D x m) y = map_of m y"
      using Some False by (simp add: fyStep_other)
    then show ?thesis using inv1[of y] inv2[of y] c1[OF False] by auto
  qed
  with d show ?thesis unfolding fyInv_def by blast
qed

lemma fyInv_fold: "fyInv D (fold (fyStep A N D) xs []) xs"
proof (induction xs rule: rev_induct)
  case Nil
  show ?case by (simp add: fyInv_def fyCount_def)
next
  case (snoc x xs)
  then show ?case by (simp add: fyInv_step)
qed

lemma fy_rows:
  "row \<in> set (fyTenderSummary A N D deals) \<longleftrightarrow>
     map_of (fold (fyStep A N D) deals []) (fyEndYear row) = Some row"
proof -
  let ?m = "fold (fyStep A N D) deals []"
  have inv: "fyInv D ?m deals" by (rule fyInv_fold)
  then have d: "distinct (map fst ?m)" by (simp add: fyInv_def)
  have k: "map_of ?m y = Some r \<Longrightarrow> fyEndYear r = y" for y r
    using inv unfolding fyInv_def by blast
  have "row \<in> set (fyTenderSummary A N D deals) \<longleftrightarrow> (\<exists>y. map_of ?m y = Some row)"
    using d by (force simp: fyTenderSummary_def map_values_def)
  also have "\<dots> \<longleftrightarrow> map_of ?m (fyEndYear row) = Some row"
    using k by auto
  finally show ?thesis .
qed

text \<open>
  C9.  The financial-year label of a date is its calendar year when the month is January
  to November and the next year when the month is December.  The summary has one row per
  label: every deal whose enquiry date parses has the row of its label, and a row counts
  exactly the deals of its label.  So 2024-12-15 and 2025-11-30 fall in FY2025, and
  2025-12-01 in FY2026.
\<close>

theorem financial_year_labels:
  "(getMonth dt \<le> 10 \<longrightarrow> getFinancialYearEnd dt = getFullYear dt) \<and>
   (getMonth dt = 11 \<longrightarrow> getFinancialYearEnd dt = getFullYear dt + 1) \<and>
   (\<forall>row\<in>set (fyTenderSummary ar Number newDate deals).
      tenders row = length (filter (\<lambda>d. fyOf newDate d = Some (fyEndYear row)) deals) \<and>
      0 < tenders row) \<and>
   (\<forall>d\<in>set deals. \<forall>date. parsedDate newDate (enquiry_date d) = Some date \<longrightarrow>
      (\<exists>row\<in>set (fyTenderSummary ar Number newDate deals).
         fyEndYear row = getFinancialYearEnd date))"
proof -
  let ?m = "fold (fyStep ar Number newDate) deals []"
  have inv: "fyInv newDate ?m deals" by (rule fyInv_fold)
  have look1: "map_of ?m y = None \<Longrightarrow> fyCount newDate y deals = 0" for y
    using inv unfolding fyInv_def by blast
  have look2: "map_of ?m y = Some r \<Longrightarrow>
      fyEndYear r = y \<and> tenders r = fyCount newDate y deals \<and> 0 < tenders r" for y r
    using inv unfolding fyInv_def by blast
  have 1: "getMonth dt \<le> 10 \<longrightarrow> getFinancialYearEnd dt = getFullYear dt"
    by (simp add: getFinancialYearEnd_def)
  have 2: "getMonth dt = 11 \<longrightarrow> getFinancialYearEnd dt = getFullYear dt + 1"
    by (simp add: getFinancialYearEnd_def)
  have 3: "\<forall>row\<in>set (fyTenderSummary ar Number newDate deals).
      tenders row = length (filter (\<lambda>d. fyOf newDate d = Some (fyEndYear row)) deals) \<and>
      0 < tenders row"
  proof
    fix row assume "row \<in> set (fyTenderSummary ar Number newDate deals)"
    then have "map_of ?m (fyEndYear row) = Some row" by (simp add: fy_rows)
    from look2[OF this]
    have "tenders row = fyCount newDate (fyEndYear row) deals \<and> 0 < tenders row"
      by simp
    then show "tenders row =
        length (filter (\<lambda>d. fyOf newDate d = Some (fyEndYear row)) deals) \<and> 0 < tenders row"
      unfolding fyCount_def .
  qed
  have 4: "\<forall>d\<in>set deals. \<forall>date. parsedDate newDate (enquiry_date d) = Some date \<longrightarrow>
      (\<exists>row\<in>set (fyTenderSummary ar Number newDate deals).
         fyEndYear row = getFinancialYearEnd date)"
  proof (intro ballI allI impI)
    fix d date assume d: "d \<in> set deals" and p: "parsedDate newDate (enquiry_date d) = Some date"
    let ?y = "getFinancialYearEnd date"
    have "fyOf newDate d = Some ?y" using p by (simp add: fyOf_def)
    with d have "fyCount newDate ?y deals \<noteq> 0"
      by (auto simp: fyCount_def filter_empty_conv)
    with look1[of ?y] obtain r where r: "map_of ?m ?y = Some r"
      by (cases "map_of ?m ?y") auto
    with look2[OF r] have "r \<in> set (fyTenderSummary ar Number newDate deals)" "fyEndYear r = ?y"
      by (simp_all add: fy_rows)
    then show "\<exists>row\<in>set (fyTenderSummary ar Number newDate deals). fyEndYear row = ?y"
      by blast
  qed
  from 1 2 3 4 show ?thesis by blast
qed

theorem financial_year_labels_witness:
  "getFinancialYearEnd \<lparr>getFullYear = 2024, getMonth = 11, getTime = 1734220800000\<rparr> = 2025 \<and>
   getFinancialYearEnd \<lparr>getFullYear = 2025, getMonth = 10, getTime = 1764460800000\<rparr> = 2025 \<and>
   getFinancialYearEnd \<lparr>getFullYear = 2025, getMonth = 11, getTime = 1764547200000\<rparr> = 2026 \<and>
   map (\<lambda>row. (fyEndYear row, tenders row))
     (fyTenderSummary doubleArithmetic noNumber sampleDates
        [fyDeal ''2025-12-01'', fyDeal ''2024-12-15'', fyDeal ''2025-11-30'']) =
     [(2025, 2), (2026, 1)]"
proof -
  have a: "getFinancialYearEnd \<lparr>getFullYear = 2024, getMonth = 11, getTime = 1734220800000\<rparr> = 2025"
    using financial_year_labels [where dt = "\<lparr>getFullYear = 2024, getMonth = 11, getTime = 1734220800000\<rparr>"]
    by simp
  have b: "getFinancialYearEnd \<lparr>getFullYear = 2025, getMonth = 10, getTime = 1764460800000\<rparr> = 2025"
    using financial_year_labels [where dt = "\<lparr>getFullYear = 2025, getMonth = 10, getTime = 1764460800000\<rparr>"]
    by simp
  have c: "getFinancialYearEnd \<lparr>getFullYear = 2025, getMonth = 11, getTime = 1764547200000\<rparr> = 2026"
    using financial_year_labels [where dt = "\<lparr>getFullYear = 2025, getMonth = 11, getTime = 1764547200000\<rparr>"]
    by simp
  have d: "map (\<lambda>row. (fyEndYear row, tenders row))
     (fyTenderSummary doubleArithmetic noNumber sampleDates
        [fyDeal ''2025-12-01'', fyDeal ''2024-12-15'', fyDeal ''2025-11-30'']) =
     [(2025, 2), (2026, 1)]"
    by code_simp
  from a b c d show ?thesis by simp
qed

section \<open>Deals the start-month reports pass over\<close>

lemma pipelineStep_skipped: "skippedDeal newDate d \<Longrightarrow> pipelineStep ar Number newDate d m = m"
  by (auto simp: skippedDeal_def pipelineStep_def Let_def split: option.splits)

lemma forecastStep_skipped: "skippedDeal newDate d \<Longrightarrow> forecastStep ar Number newDate flt d m = m"
  by (auto simp: skippedDeal_def forecastStep_def Let_def split: option.splits)

lemma fold_skip:
  assumes "\<And>x acc. skip x \<Longrightarrow> f x acc = acc"
  shows "fold f xs m = fold f (filter (\<lambda>x. \<not> skip x) xs) m"
  by (induction xs arbitrary: m) (simp_all add: assms)

text \<open>
  C10.  In the forecast loop and in the pipeline loop, a deal whose stage is Lost or
  No Tender, or whose estimated start date is absent or does not parse, leaves every
  bucket as it was: the buckets of a list are the buckets of the list without these
  deals, so their tender values are in no total, won or expected sum.
\<close>

theorem skipped_deals_add_nothing:
  "forecastLoop ar Number newDate flt collapsed =
     forecastLoop ar Number newDate flt (filter (\<lambda>d. \<not> skippedDeal newDate d) collapsed) \<and>
   pipelineBuckets ar Number newDate collapsed =
     pipelineBuckets ar Number newDate (filter (\<lambda>d. \<not> skippedDeal newDate d) collapsed) \<and>
   (skippedDeal newDate d \<longrightarrow>
      forecastStep ar Number newDate flt d m = m \<and> pipelineStep ar Number newDate d m' = m')"
proof -
  have 1: "forecastLoop ar Number newDate flt collapsed =
     forecastLoop ar Number newDate flt (filter (\<lambda>d. \<not> skippedDeal newDate d) collapsed)"
    unfolding forecastLoop_def by (rule fold_skip) (rule forecastStep_skipped)
  have 2: "fold (pipelineStep ar Number newDate) collapsed [] =
     fold (pipelineStep ar Number newDate) (filter (\<lambda>d. \<not> skippedDeal newDate d) collapsed) []"
    by (rule fold_skip) (rule pipelineStep_skipped)
  show ?thesis using 1 2 by (simp add: pipelineBuckets_def forecastStep_skipped pipelineStep_skipped)
qed

theorem skipped_deals_add_nothing_witness:
  "skippedDeal sampleDates lostDeal \<and> skippedDeal sampleDates qualifiedDeal \<and>
   \<not> skippedDeal sampleDates startingDeal \<and>
   forecastLoop doubleArithmetic noNumber sampleDates noFilters [lostDeal, startingDeal, qualifiedDeal] =
     [(''2025-11'', \<lparr>total_sum = Num 80, expected = Num 60, won = Num 0, target = Val (Num 0)\<rparr>)] \<and>
   pipelineBuckets doubleArithmetic noNumber sampleDates [lostDeal, startingDeal, qualifiedDeal] =
     pipelineBuckets doubleArithmetic noNumber sampleDates [startingDeal] \<and>
   forecastStep doubleArithmetic noNumber sampleDates noFilters lostDeal [] = []"
proof -
  have s: "skippedDeal sampleDates lostDeal" "skippedDeal sampleDates qualifiedDeal"
      "\<not> skippedDeal sampleDates startingDeal"
    by code_simp+
  have f: "filter (\<lambda>d. \<not> skippedDeal sampleDates d) [lostDeal, startingDeal, qualifiedDeal] = [startingDeal]"
    using s by simp
  have v: "forecastLoop doubleArithmetic noNumber sampleDates noFilters [startingDeal] =
     [(''2025-11'', \<lparr>total_sum = Num 80, expected = Num 60, won = Num 0, target = Val (Num 0)\<rparr>)]"
    by code_simp
  from skipped_deals_add_nothing [where ar = doubleArithmetic and Number = noNumber
      and newDate = sampleDates and flt = noFilters
      and collapsed = "[lostDeal, startingDeal, qualifiedDeal]" and d = lostDeal and m = "[]"
      and m' = "[]"] s f v
  show ?thesis by simp
qed

section \<open>What a field update leaves in the store\<close>

lemma stored_begin [simp]: "stored (updateLeadField_begin l fv st) = stored st"
  by (simp add: updateLeadField_begin_def)

lemma stored_finish:
  "stored (updateLeadField_finish srv l fv st) =
     (if srv (Update fv) then setField fv (stored st) else stored st)"
  by (simp add: updateLeadField_finish_def Let_def split: field_val.splits)

lemma stage_setField [simp]:
  "lead_stage (setField (StageVal v) l) = v"
  "lead_stage (setField (ProbabilityVal p) l) = lead_stage l"
  "lead_probability (setField (ProbabilityVal p) l) = p"
  "lead_probability (setField (StageVal v) l) = lead_probability l"
  by (simp_all add: setField_def)

lemma tender_setField [simp]:
  "lead_tender_value (setField fv l) = lead_tender_value l"
  "lead_tender_cost (setField fv l) = lead_tender_cost l"
  "lead_tender_margin (setField fv l) = lead_tender_margin l"
  "lead_tender_margin_percent (setField fv l) = lead_tender_margin_percent l"
  by (simp_all add: setField_def split: field_val.splits)

lemma stage_names [simp]:
  "''No Tender'' \<noteq> ''Received''" "''No Tender'' \<noteq> ''Won''" "''No Tender'' \<noteq> ''Lost''"
  "''Received'' \<noteq> ''Won''" "''Received'' \<noteq> ''Lost''"
  "''Won'' \<noteq> ''Qualified''" "''Won'' \<noteq> ''In Review''" "''Won'' \<noteq> ''Quote Submitted''"
  "''Lost'' \<noteq> ''Qualified''" "''Lost'' \<noteq> ''In Review''" "''Lost'' \<noteq> ''Quote Submitted''"
  "''No Tender'' \<noteq> ''Qualified''" "''No Tender'' \<noteq> ''In Review''"
  "''No Tender'' \<noteq> ''Quote Submitted''"
  by simp_all

lemma current_no_tender: "lead_stage l = Some ''No Tender'' \<Longrightarrow> currentStage l = ''No Tender''"
  by (simp add: currentStage_def STAGES_def)

lemma error_finish:
  "error (updateLeadField_finish srv l fv st) =
     (if srv (Update fv) then error st else Some (''Could not update '' @ fieldName fv @ ''.''))"
  by (simp add: updateLeadField_finish_def Let_def split: field_val.splits)

lemma error_begin [simp]: "error (updateLeadField_begin l fv st) = None"
  by (simp add: updateLeadField_begin_def)

lemma click_same: "lead st = Some l \<Longrightarrow> stg = currentStage l \<Longrightarrow> handleStageClick srv ok stg st = st"
  by (simp add: handleStageClick_def)

lemma click_from_no_tender:
  "lead st = Some l \<Longrightarrow> stg \<noteq> currentStage l \<Longrightarrow> currentStage l = ''No Tender'' \<Longrightarrow>
   handleStageClick srv ok stg st = st\<lparr>error := Some errNoTender\<rparr>"
  by (simp add: handleStageClick_def)

lemma click_unpriced:
  assumes "lead st = Some l" and "stg = ''Won'' \<or> stg = ''Lost''"
      and "stg \<noteq> currentStage l" and "currentStage l \<noteq> ''No Tender''"
      and "lead_tender_value l = None \<or> lead_tender_cost l = None \<or>
           lead_tender_margin l = None \<or> lead_tender_margin_percent l = None"
  shows "handleStageClick srv ok stg st = st\<lparr>error := Some errTender\<rparr>"
proof -
  have n: "stg \<noteq> ''No Tender''" "stg \<noteq> ''Received''" using assms(2) by auto
  show ?thesis
    unfolding handleStageClick_def using assms n by simp
qed

lemma click_priced:
  assumes "lead st = Some l" and "stg = ''Won'' \<or> stg = ''Lost''"
      and "stg \<noteq> currentStage l" and "currentStage l \<noteq> ''No Tender''"
      and "lead_tender_value l \<noteq> None" "lead_tender_cost l \<noteq> None"
          "lead_tender_margin l \<noteq> None" "lead_tender_margin_percent l \<noteq> None"
  shows "handleStageClick srv ok stg st =
         updateLeadField_finish srv l (StageVal (Some stg))
           (updateLeadField_finish srv l (ProbabilityVal None)
             (updateLeadField_begin l (StageVal (Some stg))
               (updateLeadField_begin l (ProbabilityVal None) st)))"
proof -
  have n: "stg \<noteq> ''No Tender''" "stg \<noteq> ''Received''" using assms(2) by auto
  obtain v c mg mp where f: "lead_tender_value l = Some v" "lead_tender_cost l = Some c"
      "lead_tender_margin l = Some mg" "lead_tender_margin_percent l = Some mp"
    using assms(5-8) by auto
  show ?thesis
    unfolding handleStageClick_def using assms(1-4) n f by simp
qed

lemma click_received:
  "lead st = Some l \<Longrightarrow> stg \<noteq> currentStage l \<Longrightarrow> currentStage l \<noteq> ''No Tender'' \<Longrightarrow>
   stg = ''Received'' \<Longrightarrow> handleStageClick srv ok stg st = st\<lparr>error := Some errReceived\<rparr>"
  by (simp add: handleStageClick_def)

lemma click_gate:
  assumes "lead st = Some l" and "stg \<noteq> currentStage l" and "currentStage l \<noteq> ''No Tender''"
      and "stg = ''Qualified'' \<or> stg = ''In Review'' \<or> stg = ''Quote Submitted''"
  shows "\<exists>initialAnswers. handleStageClick srv ok stg st = openGate stg initialAnswers st"
proof -
  have n: "stg \<noteq> ''No Tender''" "stg \<noteq> ''Received''" "stg \<noteq> ''Won''" "stg \<noteq> ''Lost''"
    using assms(4) by auto
  have q: "''Quote Submitted'' \<noteq> ''Qualified''" "''Quote Submitted'' \<noteq> ''In Review''"
      "''In Review'' \<noteq> ''Qualified''" by simp_all
  from assms(4) show ?thesis
  proof (elim disjE)
    assume "stg = ''Qualified''"
    then have "handleStageClick srv ok stg st = openGate stg (qualifiedInitialAnswers l) st"
      unfolding handleStageClick_def using assms(1-3) n by simp
    then show ?thesis by blast
  next
    assume "stg = ''In Review''"
    then have "handleStageClick srv ok stg st = openGate stg inReviewInitialAnswers st"
      unfolding handleStageClick_def using assms(1-3) n q by simp
    then show ?thesis by blast
  next
    assume "stg = ''Quote Submitted''"
    then have "handleStageClick srv ok stg st =
        openGate stg (quoteInitialAnswers l (tenderDraft st)) st"
      unfolding handleStageClick_def using assms(1-3) n q by simp
    then show ?thesis by blast
  qed
qed

lemma click_no_tender:
  assumes "lead st = Some l" and "stg \<noteq> currentStage l" and "stg = ''No Tender''"
  shows "handleStageClick srv ok stg st =
         (if ok then
            updateLeadField_finish srv l (StageVal (Some ''No Tender''))
              (updateLeadField_finish srv l (ProbabilityVal None)
                (updateLeadField_begin l (StageVal (Some ''No Tender''))
                  (updateLeadField_begin l (ProbabilityVal None) st)))
          else st)"
  unfolding handleStageClick_def using assms by simp

lemma click_other:
  assumes "lead st = Some l" and "stg \<noteq> currentStage l" and "currentStage l \<noteq> ''No Tender''"
      and "stg \<notin> set STAGES"
  shows "handleStageClick srv ok stg st = updateLeadField srv l (StageVal (Some stg)) st"
proof -
  have n: "stg \<noteq> ''No Tender''" "stg \<noteq> ''Received''" "stg \<noteq> ''Won''" "stg \<noteq> ''Lost''"
      "stg \<noteq> ''Qualified''" "stg \<noteq> ''In Review''" "stg \<noteq> ''Quote Submitted''"
    using assms(4) by (auto simp: STAGES_def)
  show ?thesis unfolding handleStageClick_def using assms(1-3) n by simp
qed

lemma openGate_fields:
  "pendingStage (openGate stg ia st) = Some stg" "gateModalOpen (openGate stg ia st)"
  "stored (openGate stg ia st) = stored st" "lead (openGate stg ia st) = lead st"
  "actions (openGate stg ia st) = actions st" "error (openGate stg ia st) = error st"
  by (simp_all add: openGate_def)

section \<open>Stage clicks\<close>

text \<open>
  C1, as stated, fails: a deal still in Received whose tender summary is filled in is
  moved to Won by one click, and the pair Received, Won is not in the relation of the
  specification.
\<close>

theorem transition_relation_counterexample:
  "currentStage pricedLead = ''Received'' \<and> \<not> specAllowed ''Received'' ''Won'' \<and>
   lead_stage (stored (pageOf pricedLead)) = Some ''Received'' \<and>
   lead_stage (stored (handleStageClick acceptAll True ''Won'' (pageOf pricedLead))) = Some ''Won''"
  by code_simp

text \<open>
  C1, amended.  A click on a stage other than the current one is rejected, with an
  error message and nothing else changed, when the current stage is No Tender, when the
  target is Received, or when the target is Won or Lost and one of the four tender
  fields is null.  Every other click goes ahead whatever the current stage is:
  Qualified, In Review and Quote Submitted open their gate form and write nothing yet;
  No Tender (unless the confirmation is declined), Won, Lost and any other name are
  written to the store at once.  The re-quote button writes In Review without a gate.
\<close>

theorem stage_click_guards:
  assumes "lead st = Some l" and "stg \<noteq> currentStage l"
  shows "(currentStage l = ''No Tender'' \<longrightarrow>
            handleStageClick srv ok stg st = st\<lparr>error := Some errNoTender\<rparr>) \<and>
         (currentStage l \<noteq> ''No Tender'' \<and> stg = ''Received'' \<longrightarrow>
            handleStageClick srv ok stg st = st\<lparr>error := Some errReceived\<rparr>) \<and>
         (currentStage l \<noteq> ''No Tender'' \<and> (stg = ''Won'' \<or> stg = ''Lost'') \<and>
          (lead_tender_value l = None \<or> lead_tender_cost l = None \<or>
           lead_tender_margin l = None \<or> lead_tender_margin_percent l = None) \<longrightarrow>
            handleStageClick srv ok stg st = st\<lparr>error := Some errTender\<rparr>) \<and>
         (currentStage l \<noteq> ''No Tender'' \<and>
          (stg = ''Qualified'' \<or> stg = ''In Review'' \<or> stg = ''Quote Submitted'') \<longrightarrow>
            pendingStage (handleStageClick srv ok stg st) = Some stg \<and>
            gateModalOpen (handleStageClick srv ok stg st) \<and>
            stored (handleStageClick srv ok stg st) = stored st \<and>
            lead (handleStageClick srv ok stg st) = lead st \<and>
            actions (handleStageClick srv ok stg st) = actions st \<and>
            error (handleStageClick srv ok stg st) = error st) \<and>
         (stg = ''No Tender'' \<and> \<not> ok \<longrightarrow> handleStageClick srv ok stg st = st) \<and>
         (currentStage l \<noteq> ''No Tender'' \<and> stg \<noteq> ''Received'' \<and> stg \<noteq> ''Qualified'' \<and>
          stg \<noteq> ''In Review'' \<and> stg \<noteq> ''Quote Submitted'' \<and>
          (stg = ''No Tender'' \<longrightarrow> ok) \<and>
          (stg = ''Won'' \<or> stg = ''Lost'' \<longrightarrow>
             lead_tender_value l \<noteq> None \<and> lead_tender_cost l \<noteq> None \<and>
             lead_tender_margin l \<noteq> None \<and> lead_tender_margin_percent l \<noteq> None) \<and>
          srv (Update (StageVal (Some stg))) \<longrightarrow>
            lead_stage (stored (handleStageClick srv ok stg st)) = Some stg) \<and>
         (ok \<and> srv (Update (StageVal (Some ''In Review''))) \<longrightarrow>
            lead_stage (stored (handleRequote srv ok st)) = Some ''In Review'')"
proof (intro conjI impI)
  assume "currentStage l = ''No Tender''"
  then show "handleStageClick srv ok stg st = st\<lparr>error := Some errNoTender\<rparr>"
    using click_from_no_tender[OF assms, of srv ok] by blast
next
  assume "currentStage l \<noteq> ''No Tender'' \<and> stg = ''Received''"
  then show "handleStageClick srv ok stg st = st\<lparr>error := Some errReceived\<rparr>"
    using click_received[OF assms, of srv ok] by blast
next
  assume "currentStage l \<noteq> ''No Tender'' \<and> (stg = ''Won'' \<or> stg = ''Lost'') \<and>
          (lead_tender_value l = None \<or> lead_tender_cost l = None \<or>
           lead_tender_margin l = None \<or> lead_tender_margin_percent l = None)"
  then show "handleStageClick srv ok stg st = st\<lparr>error := Some errTender\<rparr>"
    using click_unpriced[OF assms(1) _ assms(2), of srv ok] by blast
next
  assume g: "currentStage l \<noteq> ''No Tender'' \<and>
          (stg = ''Qualified'' \<or> stg = ''In Review'' \<or> stg = ''Quote Submitted'')"
  then obtain ia where o: "handleStageClick srv ok stg st = openGate stg ia st"
    using click_gate[OF assms, of srv ok] by blast
  show "pendingStage (handleStageClick srv ok stg st) = Some stg"
       "gateModalOpen (handleStageClick srv ok stg st)"
       "stored (handleStageClick srv ok stg st) = stored st"
       "lead (handleStageClick srv ok stg st) = lead st"
       "actions (handleStageClick srv ok stg st) = actions st"
       "error (handleStageClick srv ok stg st) = error st"
    unfolding o by (simp_all add: openGate_fields)
next
  assume "stg = ''No Tender'' \<and> \<not> ok"
  then show "handleStageClick srv ok stg st = st"
    using click_no_tender[OF assms, of srv ok] by simp
next
  assume h: "currentStage l \<noteq> ''No Tender'' \<and> stg \<noteq> ''Received'' \<and> stg \<noteq> ''Qualified'' \<and>
          stg \<noteq> ''In Review'' \<and> stg \<noteq> ''Quote Submitted'' \<and>
          (stg = ''No Tender'' \<longrightarrow> ok) \<and>
          (stg = ''Won'' \<or> stg = ''Lost'' \<longrightarrow>
             lead_tender_value l \<noteq> None \<and> lead_tender_cost l \<noteq> None \<and>
             lead_tender_margin l \<noteq> None \<and> lead_tender_margin_percent l \<noteq> None) \<and>
          srv (Update (StageVal (Some stg)))"
  consider (nt) "stg = ''No Tender''" | (wl) "stg = ''Won'' \<or> stg = ''Lost''"
    | (other) "stg \<notin> set STAGES"
    using h by (auto simp: STAGES_def)
  then show "lead_stage (stored (handleStageClick srv ok stg st)) = Some stg"
  proof cases
    case nt
    then show ?thesis using click_no_tender[OF assms nt, of srv ok] h
      by (simp add: stored_finish)
  next
    case wl
    then show ?thesis using click_priced[OF assms(1) wl assms(2), of srv ok] h
      by (simp add: stored_finish)
  next
    case other
    then show ?thesis using click_other[OF assms _ other, of srv ok] h
      by (simp add: updateLeadField_def stored_finish)
  qed
next
  assume "ok \<and> srv (Update (StageVal (Some ''In Review'')))"
  then show "lead_stage (stored (handleRequote srv ok st)) = Some ''In Review''"
    using assms(1) by (simp add: handleRequote_def Let_def updateLeadField_def stored_finish)
qed

theorem stage_click_guards_witness:
  "handleStageClick acceptAll True ''Received'' (pageOf reviewLead) =
     (pageOf reviewLead)\<lparr>error := Some errReceived\<rparr> \<and>
   pendingStage (handleStageClick acceptAll True ''Qualified'' (pageOf reviewLead)) =
     Some ''Qualified'' \<and>
   lead_stage (stored (handleStageClick acceptAll True ''Won'' (pageOf pricedLead))) = Some ''Won'' \<and>
   lead_stage (stored (handleStageClick acceptAll True ''No Tender'' (pageOf newLead))) =
     Some ''No Tender'' \<and>
   handleStageClick acceptAll True ''Lost'' (pageOf noTenderLead) =
     (pageOf noTenderLead)\<lparr>error := Some errNoTender\<rparr> \<and>
   handleStageClick acceptAll True ''Lost'' (pageOf newLead) =
     (pageOf newLead)\<lparr>error := Some errTender\<rparr> \<and>
   lead_stage (stored (pageOf quotedLead)) = Some ''Quote Submitted'' \<and>
   lead_stage (stored (handleRequote acceptAll True (pageOf quotedLead))) = Some ''In Review''"
proof -
  have l: "lead (pageOf reviewLead) = Some reviewLead" "lead (pageOf pricedLead) = Some pricedLead"
      "lead (pageOf newLead) = Some newLead" "lead (pageOf noTenderLead) = Some noTenderLead"
      "lead (pageOf quotedLead) = Some quotedLead"
    by (simp_all add: pageOf_def)
  have c: "currentStage reviewLead = ''In Review''" "currentStage pricedLead = ''Received''"
      "currentStage newLead = ''Received''" "currentStage noTenderLead = ''No Tender''"
      "currentStage quotedLead = ''Quote Submitted''"
    by code_simp+
  have q: "lead_stage (stored (pageOf quotedLead)) = Some ''Quote Submitted''"
    by code_simp
  have p: "lead_tender_value pricedLead \<noteq> None" "lead_tender_cost pricedLead \<noteq> None"
      "lead_tender_margin pricedLead \<noteq> None" "lead_tender_margin_percent pricedLead \<noteq> None"
      "lead_tender_value newLead = None"
    by (simp_all add: pricedLead_def newLead_def)
  have s: "acceptAll r" for r by (simp add: acceptAll_def)
  have 1: "handleStageClick acceptAll True ''Received'' (pageOf reviewLead) =
     (pageOf reviewLead)\<lparr>error := Some errReceived\<rparr>"
    using stage_click_guards [OF l(1), of "''Received''" acceptAll True] c by simp
  have 2: "pendingStage (handleStageClick acceptAll True ''Qualified'' (pageOf reviewLead)) =
     Some ''Qualified''"
    using stage_click_guards [OF l(1), of "''Qualified''" acceptAll True] c by simp
  have 3: "lead_stage (stored (handleStageClick acceptAll True ''Won'' (pageOf pricedLead))) = Some ''Won''"
    using stage_click_guards [OF l(2), of "''Won''" acceptAll True] c p s by simp
  have 4: "lead_stage (stored (handleStageClick acceptAll True ''No Tender'' (pageOf newLead))) =
     Some ''No Tender''"
    using stage_click_guards [OF l(3), of "''No Tender''" acceptAll True] c s by simp
  have 5: "handleStageClick acceptAll True ''Lost'' (pageOf noTenderLead) =
     (pageOf noTenderLead)\<lparr>error := Some errNoTender\<rparr>"
    using stage_click_guards [OF l(4), of "''Lost''" acceptAll True] c by simp
  have 6: "handleStageClick acceptAll True ''Lost'' (pageOf newLead) =
     (pageOf newLead)\<lparr>error := Some errTender\<rparr>"
    using stage_click_guards [OF l(3), of "''Lost''" acceptAll True] c p by simp
  have 7: "lead_stage (stored (handleRequote acceptAll True (pageOf quotedLead))) = Some ''In Review''"
    using stage_click_guards [OF l(5), of "''Received''" acceptAll True] c s by simp
  from 1 2 3 4 5 6 7 q show ?thesis by simp
qed

text \<open>
  C2.  For a deal whose stage is No Tender, a click on any other stage is rejected: the
  error message is set and the stored deal, the local deal, the timeline and the gate
  modal stay as they were.
\<close>

theorem no_tender_is_absorbing:
  assumes "lead st = Some l" and "lead_stage l = Some ''No Tender''" and "stg \<noteq> ''No Tender''"
  shows "handleStageClick srv ok stg st = st\<lparr>error := Some errNoTender\<rparr> \<and>
         stored (handleStageClick srv ok stg st) = stored st \<and>
         lead (handleStageClick srv ok stg st) = lead st \<and>
         actions (handleStageClick srv ok stg st) = actions st \<and>
         gateModalOpen (handleStageClick srv ok stg st) = gateModalOpen st"
proof -
  have "currentStage l = ''No Tender''" using assms(2) by (rule current_no_tender)
  then have "handleStageClick srv ok stg st = st\<lparr>error := Some errNoTender\<rparr>"
    using assms(1,3) by (simp add: handleStageClick_def)
  then show ?thesis by simp
qed

theorem no_tender_is_absorbing_witness:
  "lead (pageOf noTenderLead) = Some noTenderLead \<and>
   lead_stage noTenderLead = Some ''No Tender'' \<and>
   handleStageClick acceptAll True ''Won'' (pageOf noTenderLead) =
     (pageOf noTenderLead)\<lparr>error := Some errNoTender\<rparr> \<and>
   stored (handleStageClick acceptAll True ''Won'' (pageOf noTenderLead)) = noTenderLead"
proof -
  have a: "lead (pageOf noTenderLead) = Some noTenderLead" by (simp add: pageOf_def)
  have b: "lead_stage noTenderLead = Some ''No Tender''" by (simp add: noTenderLead_def)
  have c: "''Won'' \<noteq> ''No Tender''" by simp
  have d: "stored (pageOf noTenderLead) = noTenderLead" by (simp add: pageOf_def)
  from no_tender_is_absorbing [OF a b c, of acceptAll True] a b d show ?thesis by simp
qed

text \<open>
  C3.  A click on Won or Lost while one of tender value, cost, margin and margin percent
  is null changes nothing but the error message, and sets one whenever the target is
  not the current stage.  When all four are there, and the deal is neither in the target
  stage nor in No Tender, the click is not refused for the tender summary, and the
  stage is written as soon as the store accepts it.
\<close>

theorem won_lost_need_tender_summary:
  assumes "lead st = Some l" and "stg = ''Won'' \<or> stg = ''Lost''"
  shows "(lead_tender_value l = None \<or> lead_tender_cost l = None \<or>
          lead_tender_margin l = None \<or> lead_tender_margin_percent l = None \<longrightarrow>
            (stg = currentStage l \<longrightarrow> handleStageClick srv ok stg st = st) \<and>
            (stg \<noteq> currentStage l \<and> currentStage l = ''No Tender'' \<longrightarrow>
               handleStageClick srv ok stg st = st\<lparr>error := Some errNoTender\<rparr>) \<and>
            (stg \<noteq> currentStage l \<and> currentStage l \<noteq> ''No Tender'' \<longrightarrow>
               handleStageClick srv ok stg st = st\<lparr>error := Some errTender\<rparr>)) \<and>
         (lead_tender_value l \<noteq> None \<and> lead_tender_cost l \<noteq> None \<and>
          lead_tender_margin l \<noteq> None \<and> lead_tender_margin_percent l \<noteq> None \<and>
          stg \<noteq> currentStage l \<and> currentStage l \<noteq> ''No Tender'' \<longrightarrow>
            error (handleStageClick srv ok stg st) \<noteq> Some errTender \<and>
            (srv (Update (StageVal (Some stg))) \<longrightarrow>
               lead_stage (stored (handleStageClick srv ok stg st)) = Some stg))"
proof (intro conjI impI)
  assume "stg = currentStage l"
  then show "handleStageClick srv ok stg st = st" using assms(1) by (simp add: click_same)
next
  assume "stg \<noteq> currentStage l \<and> currentStage l = ''No Tender''"
  then show "handleStageClick srv ok stg st = st\<lparr>error := Some errNoTender\<rparr>"
    using click_from_no_tender[OF assms(1), of stg srv ok] by blast
next
  assume "lead_tender_value l = None \<or> lead_tender_cost l = None \<or>
          lead_tender_margin l = None \<or> lead_tender_margin_percent l = None"
     and "stg \<noteq> currentStage l \<and> currentStage l \<noteq> ''No Tender''"
  then show "handleStageClick srv ok stg st = st\<lparr>error := Some errTender\<rparr>"
    using click_unpriced[OF assms, of srv ok] by blast
next
  assume p: "lead_tender_value l \<noteq> None \<and> lead_tender_cost l \<noteq> None \<and>
          lead_tender_margin l \<noteq> None \<and> lead_tender_margin_percent l \<noteq> None \<and>
          stg \<noteq> currentStage l \<and> currentStage l \<noteq> ''No Tender''"
  have e: "''Could not update stage.'' \<noteq> errTender" "''Could not update probability.'' \<noteq> errTender"
    by (simp_all add: errTender_def)
  have c: "handleStageClick srv ok stg st =
         updateLeadField_finish srv l (StageVal (Some stg))
           (updateLeadField_finish srv l (ProbabilityVal None)
             (updateLeadField_begin l (StageVal (Some stg))
               (updateLeadField_begin l (ProbabilityVal None) st)))"
    using click_priced[OF assms, of srv ok] p by blast
  show "error (handleStageClick srv ok stg st) \<noteq> Some errTender"
    unfolding c using e by (simp add: error_finish fieldName_def)
  assume "srv (Update (StageVal (Some stg)))"
  then show "lead_stage (stored (handleStageClick srv ok stg st)) = Some stg"
    unfolding c by (simp add: stored_finish)
qed

theorem won_lost_need_tender_summary_witness:
  "handleStageClick acceptAll True ''Won'' (pageOf newLead) =
     (pageOf newLead)\<lparr>error := Some errTender\<rparr> \<and>
   lead_stage (stored (handleStageClick acceptAll True ''Lost'' (pageOf pricedLead))) = Some ''Lost'' \<and>
   error (handleStageClick acceptAll True ''Lost'' (pageOf pricedLead)) \<noteq> Some errTender"
proof -
  have a: "lead (pageOf newLead) = Some newLead" "lead (pageOf pricedLead) = Some pricedLead"
    by (simp_all add: pageOf_def)
  have n: "lead_tender_value newLead = None" "''Won'' \<noteq> currentStage newLead"
      "currentStage newLead \<noteq> ''No Tender''"
    by (simp_all add: newLead_def currentStage_def STAGES_def)
  have p: "lead_tender_value pricedLead \<noteq> None" "lead_tender_cost pricedLead \<noteq> None"
      "lead_tender_margin pricedLead \<noteq> None" "lead_tender_margin_percent pricedLead \<noteq> None"
      "''Lost'' \<noteq> currentStage pricedLead" "currentStage pricedLead \<noteq> ''No Tender''"
    by (simp_all add: pricedLead_def newLead_def currentStage_def STAGES_def)
  have s: "acceptAll (Update (StageVal (Some ''Lost'')))" by (simp add: acceptAll_def)
  from won_lost_need_tender_summary [OF a(1), of "''Won''" acceptAll True] n
  have 1: "handleStageClick acceptAll True ''Won'' (pageOf newLead) =
     (pageOf newLead)\<lparr>error := Some errTender\<rparr>" by simp
  from won_lost_need_tender_summary [OF a(2), of "''Lost''" acceptAll True] p s
  have 2: "lead_stage (stored (handleStageClick acceptAll True ''Lost'' (pageOf pricedLead))) = Some ''Lost'' \<and>
   error (handleStageClick acceptAll True ''Lost'' (pageOf pricedLead)) \<noteq> Some errTender" by simp
  from 1 2 show ?thesis by simp
qed

section \<open>Confirming the quoting gate\<close>

lemma confirm_rejects:
  assumes "pendingStage st = Some ''Quote Submitted''"
      and "areAllQuoteSubmittedGateQuestionsComplete (gateAnswers st)"
      and "lead st = Some l"
      and "parseFloat (ans (gateAnswers st) ''tender_value'') = NaN \<or>
           parseFloat (ans (gateAnswers st) ''tender_cost'') = NaN \<or>
           parseFloat (ans (gateAnswers st) ''tender_value'') = Num 0"
  shows "handleConfirmStageChangeToQuoteSubmitted ar parseFloat srv st =
         st\<lparr>error := Some errNumeric\<rparr>"
  using assms
  by (auto simp: handleConfirmStageChangeToQuoteSubmitted_def Let_def)

lemma confirm_submits:
  assumes "pendingStage st = Some ''Quote Submitted''"
      and "areAllQuoteSubmittedGateQuestionsComplete (gateAnswers st)"
      and "lead st = Some l"
      and "parseFloat (ans (gateAnswers st) ''tender_value'') \<noteq> NaN"
      and "parseFloat (ans (gateAnswers st) ''tender_value'') \<noteq> Num 0"
      and "parseFloat (ans (gateAnswers st) ''tender_cost'') \<noteq> NaN"
  shows "handleConfirmStageChangeToQuoteSubmitted ar parseFloat srv st =
         submitQuote ar srv l (parseFloat (ans (gateAnswers st) ''tender_value''))
           (parseFloat (ans (gateAnswers st) ''tender_cost'')) st"
  using assms by (simp add: handleConfirmStageChangeToQuoteSubmitted_def Let_def)

lemma stored_submitQuote:
  "stored (submitQuote ar srv l v c st) =
     (let mg = num_sub ar v c;
          mp = num_mul ar (num_div ar mg v) (Num 100);
          s1 = (if srv (UpdateTender v c mg mp)
                then setTender (json v) (json c) (json mg) (json mp) (stored st) else stored st)
      in if srv (Update (StageVal (Some ''Quote Submitted'')))
         then setField (StageVal (Some ''Quote Submitted'')) s1 else s1)"
  by (simp add: submitQuote_def Let_def updateLeadField_def stored_finish)

lemma tender_setTender [simp]:
  "lead_tender_value (setTender v c m p l) = v"
  "lead_tender_cost (setTender v c m p l) = c"
  "lead_tender_margin (setTender v c m p l) = m"
  "lead_tender_margin_percent (setTender v c m p l) = p"
  by (simp_all add: setTender_def)

text \<open>
  C4.  With the quoting gate pending and all eleven answers filled in: when the tender
  value or the tender cost does not parse, or the value is 0, the submission is
  rejected with an error and nothing else changes, so nothing is divided; otherwise,
  once the store accepts the update, the stored deal holds the value, the cost, the
  margin value - cost and the margin percent (value - cost) / value * 100, computed from
  the two parsed numbers in the arithmetic of the platform, whatever was typed as
  margin.  The four numbers reach the store as JSON carries them.
\<close>

theorem quote_gate_financials:
  assumes "pendingStage st = Some ''Quote Submitted''"
      and "areAllQuoteSubmittedGateQuestionsComplete (gateAnswers st)"
      and "lead st = Some l"
  shows "(parseFloat (ans (gateAnswers st) ''tender_value'') = NaN \<or>
          parseFloat (ans (gateAnswers st) ''tender_cost'') = NaN \<or>
          parseFloat (ans (gateAnswers st) ''tender_value'') = Num 0 \<longrightarrow>
            handleConfirmStageChangeToQuoteSubmitted ar parseFloat srv st =
              st\<lparr>error := Some errNumeric\<rparr>) \<and>
         (\<forall>v c. parseFloat (ans (gateAnswers st) ''tender_value'') = v \<and> v \<noteq> NaN \<and> v \<noteq> Num 0 \<and>
                parseFloat (ans (gateAnswers st) ''tender_cost'') = c \<and> c \<noteq> NaN \<and>
                srv (UpdateTender v c (num_sub ar v c)
                       (num_mul ar (num_div ar (num_sub ar v c) v) (Num 100))) \<longrightarrow>
            lead_tender_value
              (stored (handleConfirmStageChangeToQuoteSubmitted ar parseFloat srv st)) = json v \<and>
            lead_tender_cost
              (stored (handleConfirmStageChangeToQuoteSubmitted ar parseFloat srv st)) = json c \<and>
            lead_tender_margin
              (stored (handleConfirmStageChangeToQuoteSubmitted ar parseFloat srv st)) =
                json (num_sub ar v c) \<and>
            lead_tender_margin_percent
              (stored (handleConfirmStageChangeToQuoteSubmitted ar parseFloat srv st)) =
                json (num_mul ar (num_div ar (num_sub ar v c) v) (Num 100)))"
proof (intro conjI allI impI)
  assume "parseFloat (ans (gateAnswers st) ''tender_value'') = NaN \<or>
          parseFloat (ans (gateAnswers st) ''tender_cost'') = NaN \<or>
          parseFloat (ans (gateAnswers st) ''tender_value'') = Num 0"
  then show "handleConfirmStageChangeToQuoteSubmitted ar parseFloat srv st =
              st\<lparr>error := Some errNumeric\<rparr>"
    by (rule confirm_rejects[OF assms])
next
  fix v c
  assume h: "parseFloat (ans (gateAnswers st) ''tender_value'') = v \<and> v \<noteq> NaN \<and> v \<noteq> Num 0 \<and>
             parseFloat (ans (gateAnswers st) ''tender_cost'') = c \<and> c \<noteq> NaN \<and>
             srv (UpdateTender v c (num_sub ar v c)
                    (num_mul ar (num_div ar (num_sub ar v c) v) (Num 100)))"
  then have e: "handleConfirmStageChangeToQuoteSubmitted ar parseFloat srv st =
      submitQuote ar srv l v c st"
    using confirm_submits[OF assms, of parseFloat ar srv] by blast
  show "lead_tender_value
          (stored (handleConfirmStageChangeToQuoteSubmitted ar parseFloat srv st)) = json v"
       "lead_tender_cost
          (stored (handleConfirmStageChangeToQuoteSubmitted ar parseFloat srv st)) = json c"
       "lead_tender_margin
          (stored (handleConfirmStageChangeToQuoteSubmitted ar parseFloat srv st)) =
            json (num_sub ar v c)"
       "lead_tender_margin_percent
          (stored (handleConfirmStageChangeToQuoteSubmitted ar parseFloat srv st)) =
            json (num_mul ar (num_div ar (num_sub ar v c) v) (Num 100))"
    unfolding e using h by (simp_all add: stored_submitQuote Let_def)
qed

theorem quote_gate_financials_witness:
  "ans (gateAnswers firstGate) ''tender_margin'' = ''999'' \<and>
   lead_tender_value (stored firstGate) = None \<and>
   lead_tender_value
     (stored (handleConfirmStageChangeToQuoteSubmitted doubleArithmetic sampleParseFloat acceptAll
        firstGate)) = Some (Num 100) \<and>
   lead_tender_cost
     (stored (handleConfirmStageChangeToQuoteSubmitted doubleArithmetic sampleParseFloat acceptAll
        firstGate)) = Some (Num 75) \<and>
   lead_tender_margin
     (stored (handleConfirmStageChangeToQuoteSubmitted doubleArithmetic sampleParseFloat acceptAll
        firstGate)) = Some (Num 25) \<and>
   lead_tender_margin_percent
     (stored (handleConfirmStageChangeToQuoteSubmitted doubleArithmetic sampleParseFloat acceptAll
        firstGate)) = Some (Num 25) \<and>
   lead_tender_margin
     (stored (handleConfirmStageChangeToQuoteSubmitted doubleArithmetic sampleParseFloat acceptAll
        roundingGate)) = Some (Num 51) \<and>
   lead_tender_margin_percent
     (stored (handleConfirmStageChangeToQuoteSubmitted doubleArithmetic sampleParseFloat acceptAll
        roundingGate)) = Some (Num (8972014882652159 / 140737488355328)) \<and>
   handleConfirmStageChangeToQuoteSubmitted doubleArithmetic sampleParseFloat acceptAll zeroValueGate =
     zeroValueGate\<lparr>error := Some errNumeric\<rparr>"
proof -
  have g: "pendingStage firstGate = Some ''Quote Submitted''"
      "areAllQuoteSubmittedGateQuestionsComplete (gateAnswers firstGate)"
      "lead firstGate = Some reviewLead"
    by code_simp+
  have z: "pendingStage zeroValueGate = Some ''Quote Submitted''"
      "areAllQuoteSubmittedGateQuestionsComplete (gateAnswers zeroValueGate)"
      "lead zeroValueGate = Some reviewLead"
    by code_simp+
  have r: "pendingStage roundingGate = Some ''Quote Submitted''"
      "areAllQuoteSubmittedGateQuestionsComplete (gateAnswers roundingGate)"
      "lead roundingGate = Some reviewLead"
    by code_simp+
  have p: "sampleParseFloat (ans (gateAnswers firstGate) ''tender_value'') = Num 100"
      "sampleParseFloat (ans (gateAnswers firstGate) ''tender_cost'') = Num 75"
      "sampleParseFloat (ans (gateAnswers zeroValueGate) ''tender_value'') = Num 0"
      "sampleParseFloat (ans (gateAnswers roundingGate) ''tender_value'') = Num 80"
      "sampleParseFloat (ans (gateAnswers roundingGate) ''tender_cost'') = Num 29"
    by code_simp+
  have a: "num_sub doubleArithmetic (Num 100) (Num 75) = Num 25"
      "num_mul doubleArithmetic (num_div doubleArithmetic (Num 25) (Num 100)) (Num 100) = Num 25"
      "num_sub doubleArithmetic (Num 80) (Num 29) = Num 51"
      "num_mul doubleArithmetic (num_div doubleArithmetic (Num 51) (Num 80)) (Num 100) =
         Num (8972014882652159 / 140737488355328)"
    by code_simp+
  have j: "json (Num x) = Some (Num x)" for x
    by (simp add: json_def)
  have m: "ans (gateAnswers firstGate) ''tender_margin'' = ''999''"
      "lead_tender_value (stored firstGate) = None"
    by code_simp+
  have s: "acceptAll x" for x by (simp add: acceptAll_def)
  from quote_gate_financials [OF g, of sampleParseFloat doubleArithmetic acceptAll] p s
  have 1: "lead_tender_value
     (stored (handleConfirmStageChangeToQuoteSubmitted doubleArithmetic sampleParseFloat acceptAll
        firstGate)) = Some (Num 100) \<and>
   lead_tender_cost
     (stored (handleConfirmStageChangeToQuoteSubmitted doubleArithmetic sampleParseFloat acceptAll
        firstGate)) = Some (Num 75) \<and>
   lead_tender_margin
     (stored (handleConfirmStageChangeToQuoteSubmitted doubleArithmetic sampleParseFloat acceptAll
        firstGate)) = Some (Num 25) \<and>
   lead_tender_margin_percent
     (stored (handleConfirmStageChangeToQuoteSubmitted doubleArithmetic sampleParseFloat acceptAll
        firstGate)) = Some (Num 25)"
    by (simp add: a j)
  from quote_gate_financials [OF r, of sampleParseFloat doubleArithmetic acceptAll] p s
  have 2: "lead_tender_margin
     (stored (handleConfirmStageChangeToQuoteSubmitted doubleArithmetic sampleParseFloat acceptAll
        roundingGate)) = Some (Num 51) \<and>
   lead_tender_margin_percent
     (stored (handleConfirmStageChangeToQuoteSubmitted doubleArithmetic sampleParseFloat acceptAll
        roundingGate)) = Some (Num (8972014882652159 / 140737488355328))"
    by (simp add: a j)
  from quote_gate_financials [OF z, of sampleParseFloat doubleArithmetic acceptAll] p
  have 3: "handleConfirmStageChangeToQuoteSubmitted doubleArithmetic sampleParseFloat acceptAll
      zeroValueGate = zeroValueGate\<lparr>error := Some errNumeric\<rparr>"
    by simp
  from m 1 2 3 show ?thesis by simp
qed

lemma actions_begin [simp]: "actions (updateLeadField_begin l fv st) = actions st"
  by (simp add: updateLeadField_begin_def)

lemma actions_finish:
  "\<exists>pre. actions (updateLeadField_finish srv l fv st) = pre @ actions st \<and>
         (\<forall>x\<in>set pre. action_type x = Some ''Stage changed'')"
  by (cases fv) (auto simp: updateLeadField_finish_def Let_def)

lemma actions_updateLeadField:
  "\<exists>pre. actions (updateLeadField srv l fv st) = pre @ actions st \<and>
         (\<forall>x\<in>set pre. action_type x = Some ''Stage changed'')"
  using actions_finish[of srv l fv "updateLeadField_begin l fv st"]
  by (simp add: updateLeadField_def)

lemma label_counts:
  "startsWith (''Stage gate: Quote Submitted (v'' @ n @ '')'') ''Stage gate: Quote Submitted''"
  "\<not> startsWith ''Stage changed'' ''Stage gate: Quote Submitted''"
  by (simp_all add: startsWith_def)

lemma count_pre:
  "\<forall>x\<in>set pre. action_type x = Some ''Stage changed'' \<Longrightarrow> getQuoteSubmissionCount pre = 0"
  by (induction pre) (simp_all add: getQuoteSubmissionCount_def label_counts)

lemma count_append:
  "getQuoteSubmissionCount (xs @ ys) = getQuoteSubmissionCount xs + getQuoteSubmissionCount ys"
  by (simp add: getQuoteSubmissionCount_def)

lemma count_gate_entry:
  "action_type a = Some (''Stage gate: Quote Submitted (v'' @ n @ '')'') \<Longrightarrow>
   getQuoteSubmissionCount (a # acts) = getQuoteSubmissionCount acts + 1"
  by (simp add: getQuoteSubmissionCount_def startsWith_def)

lemma actions_submitQuote:
  assumes "\<forall>a. action_type a =
             Some (''Stage gate: Quote Submitted (v'' @
                   string_of_nat (getQuoteSubmissionCount (actions st) + 1) @ '')'') \<longrightarrow>
             srv (Insert a)"
  shows "\<exists>pre a. actions (submitQuote ar srv l v c st) = pre @ a # actions st \<and>
           action_type a =
             Some (''Stage gate: Quote Submitted (v'' @
                   string_of_nat (getQuoteSubmissionCount (actions st) + 1) @ '')'') \<and>
           deal_id a = lead_id l \<and>
           (\<forall>x\<in>set pre. action_type x = Some ''Stage changed'')"
proof -
  define mg where "mg = num_sub ar v c"
  define mp where "mp = num_mul ar (num_div ar mg v) (Num 100)"
  define a where "a = \<lparr>deal_id = lead_id l,
       action_type = Some (''Stage gate: Quote Submitted (v'' @
          string_of_nat (getQuoteSubmissionCount (actions st) + 1) @ '')''),
       notes_txt = Some (joinLines (quoteSummaryLines (gateAnswers st)
          (getQuoteSubmissionCount (actions st) + 1) v c mg mp)),
       file_url = None\<rparr>"
  have ok: "srv (Insert a)" using assms by (simp add: a_def)
  define st2 where "st2 =
     (if \<not> srv (UpdateTender v c mg mp)
      then (st\<lparr>actions := a # actions st\<rparr>)\<lparr>error := Some errTenderUpdate\<rparr>
      else (st\<lparr>actions := a # actions st\<rparr>)
             \<lparr>stored := setTender (json v) (json c) (json mg) (json mp) (stored st),
              lead := map_option (setTender (Some v) (Some c) (Some mg) (Some mp)) (lead st),
              tenderDraft := \<lparr>draft_tender_value = toFixed 2 v,
                              draft_tender_cost = toFixed 2 c,
                              draft_tender_margin = toFixed 2 mg,
                              draft_tender_margin_percent = toFixed 1 mp\<rparr>\<rparr>)"
  have a2: "actions st2 = a # actions st" by (simp add: st2_def)
  have e: "submitQuote ar srv l v c st =
     (updateLeadField srv l (StageVal (Some ''Quote Submitted'')) st2)
       \<lparr>gateModalOpen := False, pendingStage := None, gateAnswers := []\<rparr>"
    using ok by (simp add: submitQuote_def Let_def a_def st2_def mg_def mp_def)
  obtain pre where pre: "actions (updateLeadField srv l (StageVal (Some ''Quote Submitted'')) st2) =
       pre @ actions st2" "\<forall>x\<in>set pre. action_type x = Some ''Stage changed''"
    using actions_updateLeadField by blast
  have "actions (submitQuote ar srv l v c st) = pre @ a # actions st"
    unfolding e using pre(1) a2 by simp
  moreover have "action_type a = Some (''Stage gate: Quote Submitted (v'' @
          string_of_nat (getQuoteSubmissionCount (actions st) + 1) @ '')'')" "deal_id a = lead_id l"
    by (simp_all add: a_def)
  ultimately show ?thesis using pre(2) by blast
qed

text \<open>
  C5.  When the quoting gate is confirmed and the store accepts the entry, the timeline
  gains the entry labelled "Stage gate: Quote Submitted (vN)", N being one more than the
  number of earlier entries whose label starts with "Stage gate: Quote Submitted"; only
  "Stage changed" entries come after it, and the count of such entries has grown by one,
  so that the next submission is labelled with the next number.
\<close>

theorem quote_gate_version_label:
  assumes "pendingStage st = Some ''Quote Submitted''"
      and "areAllQuoteSubmittedGateQuestionsComplete (gateAnswers st)"
      and "lead st = Some l"
      and "parseFloat (ans (gateAnswers st) ''tender_value'') \<noteq> NaN"
      and "parseFloat (ans (gateAnswers st) ''tender_value'') \<noteq> Num 0"
      and "parseFloat (ans (gateAnswers st) ''tender_cost'') \<noteq> NaN"
      and "\<forall>a. action_type a =
             Some (''Stage gate: Quote Submitted (v'' @
                   string_of_nat (getQuoteSubmissionCount (actions st) + 1) @ '')'') \<longrightarrow>
             srv (Insert a)"
  shows "\<exists>pre a.
           actions (handleConfirmStageChangeToQuoteSubmitted ar parseFloat srv st) =
             pre @ a # actions st \<and>
           action_type a =
             Some (''Stage gate: Quote Submitted (v'' @
                   string_of_nat (getQuoteSubmissionCount (actions st) + 1) @ '')'') \<and>
           deal_id a = lead_id l \<and>
           (\<forall>x\<in>set pre. action_type x = Some ''Stage changed'') \<and>
           getQuoteSubmissionCount
             (actions (handleConfirmStageChangeToQuoteSubmitted ar parseFloat srv st)) =
             getQuoteSubmissionCount (actions st) + 1"
proof -
  let ?v = "parseFloat (ans (gateAnswers st) ''tender_value'')"
  let ?c = "parseFloat (ans (gateAnswers st) ''tender_cost'')"
  have e: "handleConfirmStageChangeToQuoteSubmitted ar parseFloat srv st =
      submitQuote ar srv l ?v ?c st"
    by (rule confirm_submits[OF assms(1-6)])
  from actions_submitQuote[OF assms(7), of ar l ?v ?c] obtain pre a where
    p: "actions (submitQuote ar srv l ?v ?c st) = pre @ a # actions st"
       "action_type a = Some (''Stage gate: Quote Submitted (v'' @
                   string_of_nat (getQuoteSubmissionCount (actions st) + 1) @ '')'')"
       "deal_id a = lead_id l"
       "\<forall>x\<in>set pre. action_type x = Some ''Stage changed''"
    by blast
  have "getQuoteSubmissionCount (pre @ a # actions st) = getQuoteSubmissionCount (actions st) + 1"
    using count_pre[OF p(4)] count_gate_entry[OF p(2)] by (simp add: count_append)
  with p show ?thesis unfolding e by auto
qed

theorem quote_gate_version_label_witness:
  "getQuoteSubmissionCount (actions firstGate) = 0 \<and>
   (\<exists>pre a. actions (handleConfirmStageChangeToQuoteSubmitted doubleArithmetic sampleParseFloat
                       acceptAll firstGate) =
              pre @ a # actions firstGate \<and>
            action_type a = Some ''Stage gate: Quote Submitted (v1)'') \<and>
   getQuoteSubmissionCount
     (actions (handleConfirmStageChangeToQuoteSubmitted doubleArithmetic sampleParseFloat
                 acceptAll firstGate)) = 1 \<and>
   getQuoteSubmissionCount (actions againGate) = 1 \<and>
   (\<exists>pre a. actions (handleConfirmStageChangeToQuoteSubmitted doubleArithmetic sampleParseFloat
                       acceptAll againGate) =
              pre @ a # actions againGate \<and>
            action_type a = Some ''Stage gate: Quote Submitted (v2)'') \<and>
   getQuoteSubmissionCount
     (actions (handleConfirmStageChangeToQuoteSubmitted doubleArithmetic sampleParseFloat
                 acceptAll againGate)) = 2"
proof -
  have g: "pendingStage firstGate = Some ''Quote Submitted''"
      "areAllQuoteSubmittedGateQuestionsComplete (gateAnswers firstGate)"
      "lead firstGate = Some reviewLead"
      "sampleParseFloat (ans (gateAnswers firstGate) ''tender_value'') \<noteq> NaN"
      "sampleParseFloat (ans (gateAnswers firstGate) ''tender_value'') \<noteq> Num 0"
      "sampleParseFloat (ans (gateAnswers firstGate) ''tender_cost'') \<noteq> NaN"
    by code_simp+
  have h: "pendingStage againGate = Some ''Quote Submitted''"
      "areAllQuoteSubmittedGateQuestionsComplete (gateAnswers againGate)"
      "lead againGate = Some reviewLead"
      "sampleParseFloat (ans (gateAnswers againGate) ''tender_value'') \<noteq> NaN"
      "sampleParseFloat (ans (gateAnswers againGate) ''tender_value'') \<noteq> Num 0"
      "sampleParseFloat (ans (gateAnswers againGate) ''tender_cost'') \<noteq> NaN"
    by code_simp+
  have s: "\<forall>a. P a \<longrightarrow> acceptAll (Insert a)" for P by (simp add: acceptAll_def)
  have c: "getQuoteSubmissionCount (actions firstGate) = 0"
      "getQuoteSubmissionCount (actions againGate) = 1"
    by code_simp+
  have n: "string_of_nat (0 + 1) = ''1''" "string_of_nat (1 + 1) = ''2''"
    by code_simp+
  from quote_gate_version_label [OF g s, of doubleArithmetic]
  have 1: "(\<exists>pre a. actions (handleConfirmStageChangeToQuoteSubmitted doubleArithmetic
                       sampleParseFloat acceptAll firstGate) =
              pre @ a # actions firstGate \<and>
            action_type a = Some ''Stage gate: Quote Submitted (v1)'') \<and>
     getQuoteSubmissionCount
     (actions (handleConfirmStageChangeToQuoteSubmitted doubleArithmetic sampleParseFloat
                 acceptAll firstGate)) = 1"
    unfolding c n by auto
  from quote_gate_version_label [OF h s, of doubleArithmetic]
  have 2: "(\<exists>pre a. actions (handleConfirmStageChangeToQuoteSubmitted doubleArithmetic
                       sampleParseFloat acceptAll againGate) =
              pre @ a # actions againGate \<and>
            action_type a = Some ''Stage gate: Quote Submitted (v2)'') \<and>
     getQuoteSubmissionCount
     (actions (handleConfirmStageChangeToQuoteSubmitted doubleArithmetic sampleParseFloat
                 acceptAll againGate)) = 2"
    unfolding c n by auto
  from c 1 2 show ?thesis by simp
qed

end
